theory Spec2Isabelle
  imports Complex_Main "HOL-Library.AList" "HOL-Library.Multiset" "HOL-Library.Monad_Syntax"
begin

section \<open>Metric lists and publishers\<close>

text \<open>
  A label set is Go's \<^verbatim>\<open>prometheus.Labels\<close>, a \<^verbatim>\<open>map[string]string\<close>: two label sets
  are equal iff they hold the same key/value pairs.
\<close>

type_synonym labels = "string \<rightharpoonup> string"

text \<open>Time stamps are carried as (fractional) seconds since the epoch.\<close>

type_synonym timestamp = real

datatype error = ApiError | NilPointer | SchemaMismatch

datatype kind = GaugeInfo | GaugeValue | GaugeTimestamp

record MetricRow =
  rowLabels :: labels
  rowValue :: real
  rowKind :: kind

type_synonym MetricList = "MetricRow list"

text \<open>
  The staging buffer \<^verbatim>\<open>prometheusCommon.MetricList\<close> and the publisher
  \<^verbatim>\<open>prometheus.GaugeVec\<close> are imported by the collectors and are not part of the sources;
  their operations follow sections 3, 4.1 and 4.2 of the specification.
\<close>

text \<open>Modelled from the spec: the constructor \<^verbatim>\<open>NewMetricsList\<close> of the imported metric
  list; a new list holds no sample.\<close>

definition NewMetricsList :: MetricList where
  "NewMetricsList = []"

text \<open>Modelled from the spec: \<^verbatim>\<open>MetricList.AddInfo\<close>, not in the sources; section 4.1,
  \<^verbatim>\<open>addInfo(labels)\<close> appends a sample of kind gauge-info and value 1.\<close>

definition AddInfo :: "labels \<Rightarrow> MetricList \<Rightarrow> MetricList" where
  "AddInfo l m = m @ [\<lparr>rowLabels = l, rowValue = 1, rowKind = GaugeInfo\<rparr>]"

text \<open>Modelled from the spec: \<^verbatim>\<open>MetricList.Add\<close>, not in the sources; section 4.1,
  \<^verbatim>\<open>add(labels, value)\<close> appends a sample of kind gauge-value.\<close>

definition Add :: "labels \<Rightarrow> real \<Rightarrow> MetricList \<Rightarrow> MetricList" where
  "Add l v m = m @ [\<lparr>rowLabels = l, rowValue = v, rowKind = GaugeValue\<rparr>]"

text \<open>Modelled from the spec: \<^verbatim>\<open>MetricList.AddTime\<close>, not in the sources; section 4.1,
  \<^verbatim>\<open>addTime(labels, timestamp)\<close> appends a sample of kind gauge-timestamp whose value is
  the time in epoch seconds.\<close>

definition AddTime :: "labels \<Rightarrow> timestamp \<Rightarrow> MetricList \<Rightarrow> MetricList" where
  "AddTime l t m = m @ [\<lparr>rowLabels = l, rowValue = t, rowKind = GaugeTimestamp\<rparr>]"

text \<open>The metric lists that the three operations can build; there is no removal.\<close>

inductive built :: "MetricList \<Rightarrow> bool" where
  built_New: "built NewMetricsList"
| built_AddInfo: "built m \<Longrightarrow> built (AddInfo l m)"
| built_Add: "built m \<Longrightarrow> built (Add l v m)"
| built_AddTime: "built m \<Longrightarrow> built (AddTime l t m)"

text \<open>Modelled from the spec: the state of the imported gauge vector; section 3, a
  publisher has a label-name schema fixed at registration and owns the current table from
  label set to value, one row per label set.\<close>

record publisher =
  schema :: "string list"
  series :: "(labels \<times> real) list"

text \<open>Modelled from the spec: the schema test of the imported gauge vector; section 3,
  a sample must use exactly the label names of the schema.\<close>

definition matchesSchema :: "publisher \<Rightarrow> MetricRow \<Rightarrow> bool" where
  "matchesSchema p r = (dom (rowLabels r) = set (schema p))"

text \<open>Modelled from the spec: the table that \<^verbatim>\<open>MetricList.GaugeSet\<close> builds, not in the
  sources; section 3, within one application a later sample overwrites an earlier one of
  the same label set, it is not added to it.\<close>

definition buildSeries :: "MetricList \<Rightarrow> (labels \<times> real) list" where
  "buildSeries m = fold (\<lambda>r t. AList.update (rowLabels r) (rowValue r) t) m []"

text \<open>Modelled from the spec: \<^verbatim>\<open>MetricList.GaugeSet\<close>, the apply of section 4.2, not in the
  sources: it replaces all published series by exactly the series of the metric list,
  the table being built off to the side and swapped in; a sample that does not match the
  schema rejects the whole apply.\<close>

definition GaugeSet :: "MetricList \<Rightarrow> publisher \<Rightarrow> error + publisher" where
  "GaugeSet m p =
     (if list_all (matchesSchema p) m then Inr (p\<lparr>series := buildSeries m\<rparr>)
      else Inl SchemaMismatch)"

text \<open>Modelled from the spec: \<^verbatim>\<open>GaugeVec.Reset\<close>, the reset of section 4.2, not in the
  sources: it drops every series of the publisher.\<close>

definition GaugeReset :: "publisher \<Rightarrow> publisher" where
  "GaugeReset p = p\<lparr>series := []\<rparr>"

text \<open>Modelled from the spec: the snapshot of section 6, the ordered sequence of the rows
  of the publisher.\<close>

definition snapshot :: "publisher \<Rightarrow> (labels \<times> real) list" where
  "snapshot p = series p"

section \<open>Gauges, completion closures and outcomes\<close>

text \<open>
  The gauge vectors held in the \<^verbatim>\<open>prometheus\<close> struct of the four collectors. The registry
  gives the current state of each; \<^verbatim>\<open>callback\<close> is the content of the completion channel in
  the order of the sends.
\<close>

datatype gauge =
    ResourceGauge | ResourceGroupGauge
  | DatabaseGauge | DatabaseStatusGauge
  | AppsGauge | AppsCredentialsGauge
  | RoleAssignmentGauge | RoleDefinitionGauge | PrincipalGauge

text \<open>
  A closure sent on the channel is the list of the \<^verbatim>\<open>GaugeSet\<close> calls of its body, each with
  the metric list it captured.
\<close>

datatype call = CallGaugeSet MetricList gauge

type_synonym closure = "call list"

text \<open>
  An operation that a \<^verbatim>\<open>Collect\<close> executes on a gauge itself, not through a closure.
\<close>

datatype gaugeOp = OpReset gauge | OpGaugeSet MetricList gauge

text \<open>\<open>applied\<close> records, in order, the operations that collectors executed on gauges
  themselves.\<close>

record world =
  registry :: "gauge \<Rightarrow> publisher"
  callback :: "closure list"
  applied :: "gaugeOp list"

text \<open>
  A collector either returns or panics (\<^verbatim>\<open>logger.Panic\<close>, a nil dereference). A panic does
  not undo the sends made before it, so both outcomes carry the world. A send appends the
  closure to the content of the channel; that a send may wait for the receiver is not
  modelled.
\<close>

datatype outcome = Returned world | Panicked error world

definition send :: "closure \<Rightarrow> world \<Rightarrow> world" where
  "send c w = w\<lparr>callback := callback w @ [c]\<rparr>"

definition andThen :: "outcome \<Rightarrow> (world \<Rightarrow> outcome) \<Rightarrow> outcome" where
  "andThen r f = (case r of Returned w \<Rightarrow> f w | Panicked e w \<Rightarrow> Panicked e w)"

text \<open>The two operations on a gauge, executed directly: \<^verbatim>\<open>gauge.Reset()\<close>, and
  \<^verbatim>\<open>metrics.GaugeSet(gauge)\<close>, which panics when the gauge rejects the metric list.\<close>

definition doReset :: "gauge \<Rightarrow> world \<Rightarrow> outcome" where
  "doReset g w =
     Returned (w\<lparr>registry := (registry w)(g := GaugeReset (registry w g)),
                applied := applied w @ [OpReset g]\<rparr>)"

definition doGaugeSet :: "MetricList \<Rightarrow> gauge \<Rightarrow> world \<Rightarrow> outcome" where
  "doGaugeSet m g w =
     (case GaugeSet m (registry w g) of
        Inl err \<Rightarrow> Panicked err (w\<lparr>applied := applied w @ [OpGaugeSet m g]\<rparr>)
      | Inr p \<Rightarrow>
          Returned (w\<lparr>registry := (registry w)(g := p),
                     applied := applied w @ [OpGaugeSet m g]\<rparr>))"

fun callTarget :: "call \<Rightarrow> gauge" where
  "callTarget (CallGaugeSet m g) = g"


text \<open>
  Executing a closure: its calls in order, each replacing the state of its gauge; a
  rejected call panics and leaves the registry as the calls before it made it.
\<close>

fun runCalls :: "call list \<Rightarrow> (gauge \<Rightarrow> publisher) \<Rightarrow> error option \<times> (gauge \<Rightarrow> publisher)" where
  "runCalls [] reg = (None, reg)"
| "runCalls (CallGaugeSet m g # cs) reg =
     (case GaugeSet m (reg g) of
        Inl e \<Rightarrow> (Some e, reg)
      | Inr p \<Rightarrow> runCalls cs (reg(g := p)))"

section \<open>Provider responses and helpers outside the sources\<close>

text \<open>
  One request of a paged listing either fails or yields a page, whose \<^verbatim>\<open>Value\<close> may be nil.
  A listing is the sequence of the results of its requests.
\<close>

datatype 'r page_result = PageError | Page "'r list option"

record subscription =
  sub_SubscriptionID :: "string option"
  sub_ID :: "string option"

record azureResource =
  ar_Subscription :: string
  ar_ResourceGroup :: string
  ar_ResourceName :: string
  ar_ResourceProviderName :: string
  ar_ResourceType :: string

type_synonym tags = "string \<rightharpoonup> string"

text \<open>
  The helper functions and options that the collectors call and the sources do not define
  are parameters: \<^verbatim>\<open>to.String\<close>, \<^verbatim>\<open>to.StringLower\<close>, \<^verbatim>\<open>stringToStringLower\<close>,
  \<^verbatim>\<open>stringPtrToString\<close>, \<^verbatim>\<open>armclient.ParseResourceId\<close> (whose error the callers drop),
  \<^verbatim>\<open>armclient.AddResourceTagsToPrometheusLabels\<close> with the two tag options,
  \<^verbatim>\<open>azureResourceTags.appendPrometheusLabel\<close>, the two extractors of identifiers, and the
  order in which \<^verbatim>\<open>range\<close> visits the keys of a map, which Go leaves unspecified.
\<close>

record helpers =
  to_String :: "string option \<Rightarrow> string"
  to_StringLower :: "string option \<Rightarrow> string"
  stringToStringLower :: "string \<Rightarrow> string"
  stringPtrToString :: "string option \<Rightarrow> string"
  ParseResourceId :: "string \<Rightarrow> azureResource"
  AddResourceTagsToPrometheusLabels :: "labels \<Rightarrow> tags \<Rightarrow> string list \<Rightarrow> labels"
  opts_ResourceTags :: "string list"
  opts_ResourceGroupTags :: "string list"
  appendPrometheusLabel :: "labels \<Rightarrow> tags \<Rightarrow> labels"
  extractResourceGroupFromAzureId :: "string \<Rightarrow> string"
  extractRoleDefinitionIdFromAzureId :: "string \<Rightarrow> string"
  mapRange :: "(string \<times> string) list \<Rightarrow> (string \<times> string) list"

section \<open>Collector of resource groups and resources\<close>

text \<open>
  The rows of the two listings, with the fields the collector reads. A pointer field is an
  option; the elements of a page are taken to be non-nil.
\<close>

record resourceGroupProperties =
  rgp_ProvisioningState :: "string option"

record resourceGroup =
  rg_ID :: "string option"
  rg_Location :: "string option"
  rg_Properties :: "resourceGroupProperties option"
  rg_Tags :: tags

record genericResource =
  res_ID :: "string option"
  res_Location :: "string option"
  res_ProvisioningState :: "string option"
  res_Tags :: tags

text \<open>The labels of one resource group; \<open>None\<close> is the panic of reading through a nil
  \<^verbatim>\<open>Properties\<close>.\<close>

definition resourceGroupLabels :: "helpers \<Rightarrow> resourceGroup \<Rightarrow> labels option" where
  "resourceGroupLabels h resourceGroup =
     (let resourceId = to_String h (rg_ID resourceGroup);
          azureResource = ParseResourceId h resourceId
      in do {
        properties \<leftarrow> rg_Properties resourceGroup;
        let infoLabels = [
          ''resourceID'' \<mapsto> to_StringLower h (rg_ID resourceGroup),
          ''subscriptionID'' \<mapsto> ar_Subscription azureResource,
          ''resourceGroup'' \<mapsto> ar_ResourceGroup azureResource,
          ''location'' \<mapsto> to_StringLower h (rg_Location resourceGroup),
          ''provisioningState'' \<mapsto> to_StringLower h (rgp_ProvisioningState properties)];
        Some (AddResourceTagsToPrometheusLabels h infoLabels (rg_Tags resourceGroup)
                (opts_ResourceGroupTags h))
      })"

fun resourceGroupRows :: "helpers \<Rightarrow> resourceGroup list \<Rightarrow> MetricList \<Rightarrow> MetricList option" where
  "resourceGroupRows h [] infoMetric = Some infoMetric"
| "resourceGroupRows h (resourceGroup # rest) infoMetric =
     (case resourceGroupLabels h resourceGroup of
        None \<Rightarrow> None
      | Some infoLabels \<Rightarrow> resourceGroupRows h rest (AddInfo infoLabels infoMetric))"

text \<open>The loop \<^verbatim>\<open>for pager.More()\<close>: a failed request panics, a page without value is
  skipped.\<close>

fun resourceGroupPages ::
  "helpers \<Rightarrow> resourceGroup page_result list \<Rightarrow> MetricList \<Rightarrow> error + MetricList" where
  "resourceGroupPages h [] infoMetric = Inr infoMetric"
| "resourceGroupPages h (PageError # pager) infoMetric = Inl ApiError"
| "resourceGroupPages h (Page None # pager) infoMetric = resourceGroupPages h pager infoMetric"
| "resourceGroupPages h (Page (Some rows) # pager) infoMetric =
     (case resourceGroupRows h rows infoMetric of
        None \<Rightarrow> Inl NilPointer
      | Some infoMetric' \<Rightarrow> resourceGroupPages h pager infoMetric')"

text \<open>\<open>client\<close> is the result of \<^verbatim>\<open>NewResourceGroupsClient\<close>: an error, or the client, given
  by the listing its pager will fetch.\<close>

definition collectAzureResourceGroup ::
  "helpers \<Rightarrow> subscription \<Rightarrow> error + resourceGroup page_result list \<Rightarrow> world \<Rightarrow> outcome" where
  "collectAzureResourceGroup h subscription client w =
     (case sub_SubscriptionID subscription of
        None \<Rightarrow> Panicked NilPointer w
      | Some subscriptionID \<Rightarrow>
          (case client of
             Inl err \<Rightarrow> Panicked err w
           | Inr pager \<Rightarrow>
               (case resourceGroupPages h pager NewMetricsList of
                  Inl err \<Rightarrow> Panicked err w
                | Inr infoMetric \<Rightarrow>
                    Returned (send [CallGaugeSet infoMetric ResourceGroupGauge] w))))"

definition resourceLabels :: "helpers \<Rightarrow> genericResource \<Rightarrow> labels" where
  "resourceLabels h resource =
     (let resourceId = to_String h (res_ID resource);
          azureResource = ParseResourceId h resourceId;
          infoLabels = [
            ''subscriptionID'' \<mapsto> ar_Subscription azureResource,
            ''resourceID'' \<mapsto> stringToStringLower h resourceId,
            ''resourceName'' \<mapsto> ar_ResourceName azureResource,
            ''resourceGroup'' \<mapsto> ar_ResourceGroup azureResource,
            ''provider'' \<mapsto> ar_ResourceProviderName azureResource,
            ''resourceType'' \<mapsto> ar_ResourceType azureResource,
            ''location'' \<mapsto> to_StringLower h (res_Location resource),
            ''provisioningState'' \<mapsto> to_StringLower h (res_ProvisioningState resource)]
      in AddResourceTagsToPrometheusLabels h infoLabels (res_Tags resource) (opts_ResourceTags h))"

fun resourceRows :: "helpers \<Rightarrow> genericResource list \<Rightarrow> MetricList \<Rightarrow> MetricList" where
  "resourceRows h [] resourceMetric = resourceMetric"
| "resourceRows h (resource # rest) resourceMetric =
     resourceRows h rest (AddInfo (resourceLabels h resource) resourceMetric)"

fun resourcePages ::
  "helpers \<Rightarrow> genericResource page_result list \<Rightarrow> MetricList \<Rightarrow> error + MetricList" where
  "resourcePages h [] resourceMetric = Inr resourceMetric"
| "resourcePages h (PageError # pager) resourceMetric = Inl ApiError"
| "resourcePages h (Page None # pager) resourceMetric = resourcePages h pager resourceMetric"
| "resourcePages h (Page (Some rows) # pager) resourceMetric =
     resourcePages h pager (resourceRows h rows resourceMetric)"

definition collectAzureResources ::
  "helpers \<Rightarrow> subscription \<Rightarrow> error + genericResource page_result list \<Rightarrow> world \<Rightarrow> outcome" where
  "collectAzureResources h subscription client w =
     (case sub_SubscriptionID subscription of
        None \<Rightarrow> Panicked NilPointer w
      | Some subscriptionID \<Rightarrow>
          (case client of
             Inl err \<Rightarrow> Panicked err w
           | Inr pager \<Rightarrow>
               (case resourcePages h pager NewMetricsList of
                  Inl err \<Rightarrow> Panicked err w
                | Inr resourceMetric \<Rightarrow>
                    Returned (send [CallGaugeSet resourceMetric ResourceGauge] w))))"

text \<open>The function that \<^verbatim>\<open>MetricsCollectorAzureRmResources.Collect\<close> runs for one
  subscription.\<close>

definition AzureRmResources_Collect ::
  "helpers \<Rightarrow> subscription \<Rightarrow> error + resourceGroup page_result list \<Rightarrow>
   error + genericResource page_result list \<Rightarrow> world \<Rightarrow> outcome" where
  "AzureRmResources_Collect h subscription groupsClient resourcesClient w =
     andThen (collectAzureResourceGroup h subscription groupsClient w)
       (collectAzureResources h subscription resourcesClient)"

definition AzureRmResources_Reset :: "world \<Rightarrow> world" where
  "AzureRmResources_Reset w =
     (let reg = registry w;
          reg = reg(ResourceGauge := GaugeReset (reg ResourceGauge));
          reg = reg(ResourceGroupGauge := GaugeReset (reg ResourceGroupGauge))
      in w\<lparr>registry := reg\<rparr>)"


section \<open>Collector of database servers\<close>

text \<open>
  A server row with the fields the two collectors read; the fields of the embedded server
  properties are listed with the row's own. A field that the code dereferences or compares
  with nil is an option.
\<close>

record sku =
  sku_Name :: "string option"
  sku_Tier :: string

record storageProfile =
  sp_GeoRedundantBackup :: string
  sp_BackupRetentionDays :: "int option"
  sp_StorageMB :: "int option"

record server =
  srv_ID :: "string option"
  srv_Location :: "string option"
  srv_Name :: "string option"
  srv_Sku :: "sku option"
  srv_Version :: string
  srv_FullyQualifiedDomainName :: "string option"
  srv_SslEnforcement :: string
  srv_StorageProfile :: "storageProfile option"
  srv_EarliestRestoreDate :: "timestamp option"
  srv_ReplicaCapacity :: "int option"
  srv_Tags :: tags

text \<open>
  The body of the loop over the servers, on the pair of the info and the status list. In
  the option monad \<open>None\<close> is the panic of a nil dereference; the steps follow the order of
  evaluation of the source.
\<close>

definition postgresqlRow ::
  "helpers \<Rightarrow> subscription \<Rightarrow> server \<Rightarrow> MetricList \<times> MetricList \<Rightarrow>
   (MetricList \<times> MetricList) option" where
  "postgresqlRow h subscription val ms = do {
     (skuName, skuTier) \<leftarrow>
       (case srv_Sku val of
          None \<Rightarrow> Some ([], [])
        | Some s \<Rightarrow> do { name \<leftarrow> sku_Name s; Some (name, sku_Tier s) });
     resourceID \<leftarrow> srv_ID val;
     subscriptionID \<leftarrow> sub_SubscriptionID subscription;
     location \<leftarrow> srv_Location val;
     serverName \<leftarrow> srv_Name val;
     fqdn \<leftarrow> srv_FullyQualifiedDomainName val;
     storageProfile \<leftarrow> srv_StorageProfile val;
     let infoLabels = [
       ''resourceID'' \<mapsto> resourceID,
       ''subscriptionID'' \<mapsto> subscriptionID,
       ''location'' \<mapsto> location,
       ''type'' \<mapsto> ''postgresql'',
       ''serverName'' \<mapsto> serverName,
       ''resourceGroup'' \<mapsto> extractResourceGroupFromAzureId h resourceID,
       ''skuName'' \<mapsto> skuName,
       ''skuTier'' \<mapsto> skuTier,
       ''version'' \<mapsto> srv_Version val,
       ''fqdn'' \<mapsto> fqdn,
       ''sslEnforcement'' \<mapsto> srv_SslEnforcement val,
       ''geoRedundantBackup'' \<mapsto> sp_GeoRedundantBackup storageProfile];
     let infoLabels = appendPrometheusLabel h infoLabels (srv_Tags val);
     let infoMetric = Add infoLabels 1 (fst ms);
     backupRetentionDays \<leftarrow> sp_BackupRetentionDays storageProfile;
     let statusMetric =
       Add [''resourceID'' \<mapsto> resourceID, ''type'' \<mapsto> ''backupRetentionDays'']
         (real_of_int backupRetentionDays) (snd ms);
     let statusMetric =
       (case srv_EarliestRestoreDate val of
          None \<Rightarrow> statusMetric
        | Some t \<Rightarrow>
            AddTime [''resourceID'' \<mapsto> resourceID, ''type'' \<mapsto> ''earliestRestoreDate'']
              t statusMetric);
     let statusMetric =
       (case srv_ReplicaCapacity val of
          None \<Rightarrow> statusMetric
        | Some c \<Rightarrow>
            Add [''resourceID'' \<mapsto> resourceID, ''type'' \<mapsto> ''replicaCapacity'']
              (real_of_int c) statusMetric);
     storageMB \<leftarrow> sp_StorageMB storageProfile;
     Some (infoMetric,
           Add [''resourceID'' \<mapsto> resourceID, ''type'' \<mapsto> ''storage'']
             (real_of_int storageMB * 1048576) statusMetric)
   }"

definition mysqlRow ::
  "helpers \<Rightarrow> subscription \<Rightarrow> server \<Rightarrow> MetricList \<times> MetricList \<Rightarrow>
   (MetricList \<times> MetricList) option" where
  "mysqlRow h subscription val ms = do {
     let (skuName, skuTier) =
       (case srv_Sku val of
          None \<Rightarrow> ([], [])
        | Some s \<Rightarrow> (stringPtrToString h (sku_Name s), sku_Tier s));
     resourceID \<leftarrow> srv_ID val;
     subscriptionID \<leftarrow> sub_SubscriptionID subscription;
     fqdn \<leftarrow> srv_FullyQualifiedDomainName val;
     storageProfile \<leftarrow> srv_StorageProfile val;
     let infoLabels = [
       ''resourceID'' \<mapsto> resourceID,
       ''subscriptionID'' \<mapsto> subscriptionID,
       ''location'' \<mapsto> stringPtrToString h (srv_Location val),
       ''serverName'' \<mapsto> stringPtrToString h (srv_Name val),
       ''type'' \<mapsto> ''mysql'',
       ''resourceGroup'' \<mapsto> extractResourceGroupFromAzureId h resourceID,
       ''skuName'' \<mapsto> skuName,
       ''skuTier'' \<mapsto> skuTier,
       ''version'' \<mapsto> srv_Version val,
       ''fqdn'' \<mapsto> fqdn,
       ''sslEnforcement'' \<mapsto> srv_SslEnforcement val,
       ''geoRedundantBackup'' \<mapsto> sp_GeoRedundantBackup storageProfile];
     let infoLabels = appendPrometheusLabel h infoLabels (srv_Tags val);
     let infoMetric = AddInfo infoLabels (fst ms);
     backupRetentionDays \<leftarrow> sp_BackupRetentionDays storageProfile;
     let statusMetric =
       Add [''resourceID'' \<mapsto> resourceID, ''type'' \<mapsto> ''backupRetentionDays'']
         (real_of_int backupRetentionDays) (snd ms);
     let statusMetric =
       (case srv_EarliestRestoreDate val of
          None \<Rightarrow> statusMetric
        | Some t \<Rightarrow>
            AddTime [''resourceID'' \<mapsto> resourceID, ''type'' \<mapsto> ''earliestRestoreDate'']
              t statusMetric);
     let statusMetric =
       (case srv_ReplicaCapacity val of
          None \<Rightarrow> statusMetric
        | Some c \<Rightarrow>
            Add [''resourceID'' \<mapsto> resourceID, ''type'' \<mapsto> ''replicaCapacity'']
              (real_of_int c) statusMetric);
     storageMB \<leftarrow> sp_StorageMB storageProfile;
     Some (infoMetric,
           Add [''resourceID'' \<mapsto> resourceID, ''type'' \<mapsto> ''storage'']
             (real_of_int storageMB * 1048576) statusMetric)
   }"

text \<open>The loop \<^verbatim>\<open>for _, val := range *list.Value\<close> over a row function.\<close>

fun serverRows ::
  "(server \<Rightarrow> MetricList \<times> MetricList \<Rightarrow> (MetricList \<times> MetricList) option) \<Rightarrow>
   server list \<Rightarrow> MetricList \<times> MetricList \<Rightarrow> (MetricList \<times> MetricList) option" where
  "serverRows row [] ms = Some ms"
| "serverRows row (val # rest) ms =
     (case row val ms of None \<Rightarrow> None | Some ms' \<Rightarrow> serverRows row rest ms')"

text \<open>\<open>list\<close> is the result of \<^verbatim>\<open>client.List\<close>: an error, or a result whose \<^verbatim>\<open>Value\<close> is a
  pointer to the servers.\<close>

definition collectAzureDatabasePostgresql ::
  "helpers \<Rightarrow> subscription \<Rightarrow> error + server list option \<Rightarrow> world \<Rightarrow> outcome" where
  "collectAzureDatabasePostgresql h subscription list w =
     (case sub_SubscriptionID subscription of
        None \<Rightarrow> Panicked NilPointer w
      | Some subscriptionID \<Rightarrow>
          (case list of
             Inl err \<Rightarrow> Panicked err w
           | Inr None \<Rightarrow> Panicked NilPointer w
           | Inr (Some servers) \<Rightarrow>
               (case serverRows (postgresqlRow h subscription) servers
                       (NewMetricsList, NewMetricsList) of
                  None \<Rightarrow> Panicked NilPointer w
                | Some (infoMetric, statusMetric) \<Rightarrow>
                    Returned (send [CallGaugeSet infoMetric DatabaseGauge,
                                    CallGaugeSet statusMetric DatabaseStatusGauge] w))))"

definition collectAzureDatabaseMysql ::
  "helpers \<Rightarrow> subscription \<Rightarrow> error + server list option \<Rightarrow> world \<Rightarrow> outcome" where
  "collectAzureDatabaseMysql h subscription list w =
     (case sub_SubscriptionID subscription of
        None \<Rightarrow> Panicked NilPointer w
      | Some subscriptionID \<Rightarrow>
          (case list of
             Inl err \<Rightarrow> Panicked err w
           | Inr None \<Rightarrow> Panicked NilPointer w
           | Inr (Some servers) \<Rightarrow>
               (case serverRows (mysqlRow h subscription) servers
                       (NewMetricsList, NewMetricsList) of
                  None \<Rightarrow> Panicked NilPointer w
                | Some (infoMetric, statusMetric) \<Rightarrow>
                    Returned (send [CallGaugeSet infoMetric DatabaseGauge,
                                    CallGaugeSet statusMetric DatabaseStatusGauge] w))))"

definition AzureRmDatabase_Collect ::
  "helpers \<Rightarrow> subscription \<Rightarrow> error + server list option \<Rightarrow> error + server list option \<Rightarrow>
   world \<Rightarrow> outcome" where
  "AzureRmDatabase_Collect h subscription postgresqlList mysqlList w =
     andThen (collectAzureDatabasePostgresql h subscription postgresqlList w)
       (collectAzureDatabaseMysql h subscription mysqlList)"

definition AzureRmDatabase_Reset :: "world \<Rightarrow> world" where
  "AzureRmDatabase_Reset w =
     (let reg = registry w;
          reg = reg(DatabaseGauge := GaugeReset (reg DatabaseGauge));
          reg = reg(DatabaseStatusGauge := GaugeReset (reg DatabaseStatusGauge))
      in w\<lparr>registry := reg\<rparr>)"


section \<open>Collector of directory applications\<close>

record credential =
  cred_KeyID :: "string option"
  cred_StartDate :: "timestamp option"
  cred_EndDate :: "timestamp option"

record application =
  app_AppID :: "string option"
  app_ObjectID :: "string option"
  app_DisplayName :: "string option"
  app_ObjectType :: string
  app_PasswordCredentials :: "credential list option"
  app_KeyCredentials :: "credential list option"

text \<open>The loop over the credentials of one application; the one over the password and
  the key credentials differ in the label \<^verbatim>\<open>credentialType\<close> only.\<close>

fun credentialRows ::
  "helpers \<Rightarrow> application \<Rightarrow> string \<Rightarrow> credential list \<Rightarrow> MetricList \<Rightarrow> MetricList" where
  "credentialRows h row credentialType [] appsCredentialMetrics = appsCredentialMetrics"
| "credentialRows h row credentialType (credential # rest) appsCredentialMetrics =
     (let m = appsCredentialMetrics;
          m = (case cred_StartDate credential of
                 None \<Rightarrow> m
               | Some t \<Rightarrow>
                   AddTime [
                     ''appAppID'' \<mapsto> stringPtrToString h (app_AppID row),
                     ''credentialID'' \<mapsto> stringPtrToString h (cred_KeyID credential),
                     ''credentialType'' \<mapsto> credentialType,
                     ''type'' \<mapsto> ''startDate''] t m);
          m = (case cred_EndDate credential of
                 None \<Rightarrow> m
               | Some t \<Rightarrow>
                   AddTime [
                     ''appAppID'' \<mapsto> stringPtrToString h (app_AppID row),
                     ''credentialID'' \<mapsto> stringPtrToString h (cred_KeyID credential),
                     ''credentialType'' \<mapsto> credentialType,
                     ''type'' \<mapsto> ''endDate''] t m)
      in credentialRows h row credentialType rest m)"

definition appRow ::
  "helpers \<Rightarrow> application \<Rightarrow> MetricList \<times> MetricList \<Rightarrow> MetricList \<times> MetricList" where
  "appRow h row ms =
     (let appsMetrics =
            AddInfo [
              ''appAppID'' \<mapsto> stringPtrToString h (app_AppID row),
              ''appObjectID'' \<mapsto> stringPtrToString h (app_ObjectID row),
              ''appDisplayName'' \<mapsto> stringPtrToString h (app_DisplayName row),
              ''appObjectType'' \<mapsto> app_ObjectType row] (fst ms);
          c = snd ms;
          c = (case app_PasswordCredentials row of
                 None \<Rightarrow> c
               | Some credentials \<Rightarrow> credentialRows h row ''password'' credentials c);
          c = (case app_KeyCredentials row of
                 None \<Rightarrow> c
               | Some credentials \<Rightarrow> credentialRows h row ''key'' credentials c)
      in (appsMetrics, c))"

fun appRows ::
  "helpers \<Rightarrow> application list \<Rightarrow> MetricList \<times> MetricList \<Rightarrow> MetricList \<times> MetricList" where
  "appRows h [] ms = ms"
| "appRows h (row # rest) ms = appRows h rest (appRow h row ms)"

text \<open>
  \<^verbatim>\<open>MetricsCollectorGraphApps.Collect\<close> has no completion channel: it resets its two gauges
  and sets them itself. \<open>list\<close> is the result of \<^verbatim>\<open>m.client.List\<close>, an error or the values
  of the page it returned.
\<close>

definition GraphApps_Collect :: "helpers \<Rightarrow> error + application list \<Rightarrow> world \<Rightarrow> outcome" where
  "GraphApps_Collect h list w =
     (case list of
        Inl err \<Rightarrow> Panicked err w
      | Inr rows \<Rightarrow>
          (let (appsMetrics, appsCredentialMetrics) =
                 appRows h rows (NewMetricsList, NewMetricsList)
           in andThen (andThen (andThen
                (doReset AppsGauge w)
                (doReset AppsCredentialsGauge))
                (doGaugeSet appsMetrics AppsGauge))
                (doGaugeSet appsCredentialMetrics AppsCredentialsGauge)))"

section \<open>Collector of role definitions, role assignments and principals\<close>

text \<open>
  The iterator that \<^verbatim>\<open>ListComplete\<close> returns, as each loop observes it: the values left on
  the current page and the requests still to come. \<^verbatim>\<open>ListComplete\<close> makes the first
  request; \<^verbatim>\<open>NextWithContext\<close> steps within the page and makes the next request at its end,
  returning an error when that request fails.
\<close>

type_synonym 'r iterator = "'r list \<times> 'r page_result list"

definition pageValues :: "'r list option \<Rightarrow> 'r list" where
  "pageValues v = (case v of None \<Rightarrow> [] | Some rows \<Rightarrow> rows)"

fun ListComplete :: "'r page_result list \<Rightarrow> error + 'r iterator" where
  "ListComplete [] = Inr ([], [])"
| "ListComplete (PageError # rest) = Inl ApiError"
| "ListComplete (Page v # rest) = Inr (pageValues v, rest)"

definition NotDone :: "'r iterator \<Rightarrow> bool" where
  "NotDone list = (fst list \<noteq> [])"

fun NextWithContext :: "'r iterator \<Rightarrow> error + 'r iterator" where
  "NextWithContext (val # next # vals, rest) = Inr (next # vals, rest)"
| "NextWithContext (cur, []) = Inr ([], [])"
| "NextWithContext (cur, PageError # rest) = Inl ApiError"
| "NextWithContext (cur, Page v # rest) = Inr (pageValues v, rest)"

fun pageSize :: "'r page_result \<Rightarrow> nat" where
  "pageSize PageError = 1"
| "pageSize (Page v) = Suc (length (pageValues v))"

definition iteratorSize :: "'r iterator \<Rightarrow> nat" where
  "iteratorSize list = length (fst list) + sum_list (map pageSize (snd list))"

text \<open>
  The loop that the three functions of this collector share,
  \<^verbatim>\<open>for list.NotDone() { val := list.Value(); ...; if list.NextWithContext(ctx) != nil { break } }\<close>,
  over the body \<open>body\<close> on the loop's variables \<open>s\<close>; \<open>None\<close> is a panic of the body.
\<close>

function forNotDone :: "('r \<Rightarrow> 's \<Rightarrow> 's option) \<Rightarrow> 'r iterator \<Rightarrow> 's \<Rightarrow> 's option" where
  "forNotDone body list s =
     (case fst list of
        [] \<Rightarrow> Some s
      | val # vals \<Rightarrow>
          (case body val s of
             None \<Rightarrow> None
           | Some s' \<Rightarrow>
               (case NextWithContext list of
                  Inl err \<Rightarrow> Some s'
                | Inr list' \<Rightarrow> forNotDone body list' s')))"
  by pat_completeness auto
termination
proof (relation "measure (\<lambda>(body, list, s). iteratorSize list)")
  show "wf (measure (\<lambda>(body, list, s). iteratorSize list))" by simp
next
  fix body :: "'r \<Rightarrow> 's \<Rightarrow> 's option" and list :: "'r iterator" and s s' :: 's
    and val vals list'
  assume cur: "fst list = val # vals" and nxt: "NextWithContext list = Inr list'"
  obtain c rest where l: "list = (c, rest)" by (cases list)
  from cur l have c: "c = val # vals" by simp
  have "iteratorSize list' < iteratorSize list"
  proof (cases vals)
    case (Cons y ys)
    with nxt l c show ?thesis by (auto simp: iteratorSize_def)
  next
    case Nil
    show ?thesis
    proof (cases rest)
      case Nil
      with nxt l c \<open>vals = []\<close> show ?thesis by (auto simp: iteratorSize_def)
    next
      case (Cons p ps)
      with nxt l c \<open>vals = []\<close> show ?thesis
        by (cases p) (auto simp: iteratorSize_def)
    qed
  qed
  then show "((body, list', s'), (body, list, s)) \<in> measure (\<lambda>(body, list, s). iteratorSize list)"
    by simp
qed

record roleDefinition =
  rd_ID :: "string option"
  rd_Name :: "string option"
  rd_RoleName :: "string option"
  rd_RoleType :: "string option"

definition roleDefinitionRow ::
  "helpers \<Rightarrow> subscription \<Rightarrow> roleDefinition \<Rightarrow> MetricList \<Rightarrow> MetricList option" where
  "roleDefinitionRow h subscription val infoMetric = do {
     subscriptionID \<leftarrow> sub_SubscriptionID subscription;
     roleDefinitionID \<leftarrow> rd_ID val;
     name \<leftarrow> rd_Name val;
     roleName \<leftarrow> rd_RoleName val;
     roleType \<leftarrow> rd_RoleType val;
     let infoLabels = [
       ''subscriptionID'' \<mapsto> subscriptionID,
       ''roleDefinitionID'' \<mapsto> extractRoleDefinitionIdFromAzureId h roleDefinitionID,
       ''name'' \<mapsto> name,
       ''roleName'' \<mapsto> roleName,
       ''roleType'' \<mapsto> roleType];
     Some (AddInfo infoLabels infoMetric)
   }"

text \<open>\<open>listing\<close> is what the requests of \<^verbatim>\<open>client.ListComplete\<close> and of the iterator it
  returns will yield.\<close>

definition collectRoleDefinitions ::
  "helpers \<Rightarrow> subscription \<Rightarrow> roleDefinition page_result list \<Rightarrow> world \<Rightarrow> outcome" where
  "collectRoleDefinitions h subscription listing w =
     (case (sub_SubscriptionID subscription, sub_ID subscription) of
        (Some subscriptionID, Some scope) \<Rightarrow>
          (case ListComplete listing of
             Inl err \<Rightarrow> Panicked err w
           | Inr list \<Rightarrow>
               (case forNotDone (roleDefinitionRow h subscription) list NewMetricsList of
                  None \<Rightarrow> Panicked NilPointer w
                | Some infoMetric \<Rightarrow>
                    Returned (send [CallGaugeSet infoMetric RoleDefinitionGauge] w)))
      | _ \<Rightarrow> Panicked NilPointer w)"


text \<open>
  The directory objects that the batch lookup returns: one of the four kinds the collector
  recognises, each with the same three fields read, or any other kind.
\<close>

record directoryObjectFields =
  do_ObjectID :: "string option"
  do_DisplayName :: "string option"
  do_ObjectType :: string

datatype directoryObject =
    ADGroup directoryObjectFields
  | Application directoryObjectFields
  | ServicePrincipal directoryObjectFields
  | User directoryObjectFields
  | OtherObject

definition principalLabels ::
  "helpers \<Rightarrow> subscription \<Rightarrow> directoryObjectFields \<Rightarrow> labels option" where
  "principalLabels h subscription object = do {
     subscriptionID \<leftarrow> sub_SubscriptionID subscription;
     Some [
       ''subscriptionID'' \<mapsto> subscriptionID,
       ''principalID'' \<mapsto> stringPtrToString h (do_ObjectID object),
       ''principalName'' \<mapsto> stringPtrToString h (do_DisplayName object),
       ''principalType'' \<mapsto> do_ObjectType object]
   }"

text \<open>The body of the inner loop: \<open>infoLabels\<close> stays nil for an object of another kind,
  and no row is added for it.\<close>

fun principalRow ::
  "helpers \<Rightarrow> subscription \<Rightarrow> directoryObject \<Rightarrow> MetricList \<Rightarrow> MetricList option" where
  "principalRow h subscription (ADGroup object) infoMetric =
     map_option (\<lambda>infoLabels. AddInfo infoLabels infoMetric) (principalLabels h subscription object)"
| "principalRow h subscription (Application object) infoMetric =
     map_option (\<lambda>infoLabels. AddInfo infoLabels infoMetric) (principalLabels h subscription object)"
| "principalRow h subscription (ServicePrincipal object) infoMetric =
     map_option (\<lambda>infoLabels. AddInfo infoLabels infoMetric) (principalLabels h subscription object)"
| "principalRow h subscription (User object) infoMetric =
     map_option (\<lambda>infoLabels. AddInfo infoLabels infoMetric) (principalLabels h subscription object)"
| "principalRow h subscription OtherObject infoMetric = Some infoMetric"

definition chunkSize :: nat where
  "chunkSize = 999"

text \<open>The slice \<^verbatim>\<open>principalIdList[i:end]\<close> for \<open>i \<le> end \<le> length\<close>.\<close>

definition slice :: "'a list \<Rightarrow> nat \<Rightarrow> nat \<Rightarrow> 'a list" where
  "slice xs i j = take (j - i) (drop i xs)"

text \<open>
  The loop of \<^verbatim>\<open>collectPrincipals\<close> from index \<open>i\<close>. \<open>getObjects\<close> gives, for the identifiers
  of one call of \<^verbatim>\<open>GetObjectsByObjectIdsComplete\<close>, what its requests yield. The result
  pairs the sequence of the chunks looked up, in the order of the calls, with the metric
  list at the end of the loop or the error of the panic. The indices are natural numbers:
  the length of a slice of strings plus 999 fits a Go \<^verbatim>\<open>int\<close>.
\<close>

function principalsLoop ::
  "helpers \<Rightarrow> subscription \<Rightarrow> (string list \<Rightarrow> directoryObject page_result list) \<Rightarrow>
   string list \<Rightarrow> nat \<Rightarrow> MetricList \<Rightarrow> string list list \<times> (error + MetricList)" where
  "principalsLoop h subscription getObjects principalIdList i infoMetric =
     (if i < length principalIdList then
        (let end' = (if i + chunkSize > length principalIdList then length principalIdList
                    else i + chunkSize);
             principalIdChunkList = slice principalIdList i end'
         in case ListComplete (getObjects principalIdChunkList) of
              Inl err \<Rightarrow> ([principalIdChunkList], Inl err)
            | Inr list \<Rightarrow>
                (case forNotDone (principalRow h subscription) list infoMetric of
                   None \<Rightarrow> ([principalIdChunkList], Inl NilPointer)
                 | Some infoMetric' \<Rightarrow>
                     (case principalsLoop h subscription getObjects principalIdList
                             (i + chunkSize) infoMetric' of
                        (chunks, result) \<Rightarrow> (principalIdChunkList # chunks, result))))
      else ([], Inr infoMetric))"
  by pat_completeness auto
termination
  by (relation "measure (\<lambda>(h, subscription, getObjects, principalIdList, i, infoMetric).
                   length principalIdList - i)")
     (auto simp: chunkSize_def)

definition collectPrincipals ::
  "helpers \<Rightarrow> subscription \<Rightarrow> (string list \<Rightarrow> directoryObject page_result list) \<Rightarrow>
   string list \<Rightarrow> world \<Rightarrow> outcome" where
  "collectPrincipals h subscription getObjects principalIdList w =
     (case snd (principalsLoop h subscription getObjects principalIdList 0 NewMetricsList) of
        Inl err \<Rightarrow> Panicked err w
      | Inr infoMetric \<Rightarrow> Returned (send [CallGaugeSet infoMetric PrincipalGauge] w))"

record roleAssignmentProperties =
  rap_PrincipalID :: "string option"
  rap_RoleDefinitionID :: "string option"
  rap_Scope :: "string option"

record roleAssignment =
  ra_ID :: "string option"
  ra_Properties :: "roleAssignmentProperties option"

text \<open>The body of the loop over the role assignments, on the metric list and on
  \<^verbatim>\<open>principalIdMap\<close>, a map kept as the list of its entries.\<close>

definition roleAssignmentRow ::
  "helpers \<Rightarrow> subscription \<Rightarrow> roleAssignment \<Rightarrow> MetricList \<times> (string \<times> string) list \<Rightarrow>
   (MetricList \<times> (string \<times> string) list) option" where
  "roleAssignmentRow h subscription val s = do {
     properties \<leftarrow> ra_Properties val;
     principalId \<leftarrow> rap_PrincipalID properties;
     subscriptionID \<leftarrow> sub_SubscriptionID subscription;
     roleAssignmentID \<leftarrow> ra_ID val;
     roleDefinitionID \<leftarrow> rap_RoleDefinitionID properties;
     scope \<leftarrow> rap_Scope properties;
     let infoLabels = [
       ''subscriptionID'' \<mapsto> subscriptionID,
       ''roleAssignmentID'' \<mapsto> roleAssignmentID,
       ''roleDefinitionID'' \<mapsto> extractRoleDefinitionIdFromAzureId h roleDefinitionID,
       ''resourceID'' \<mapsto> scope,
       ''resourceGroup'' \<mapsto> extractResourceGroupFromAzureId h scope,
       ''principalID'' \<mapsto> principalId];
     Some (AddInfo infoLabels (fst s), AList.update principalId principalId (snd s))
   }"

text \<open>The list built by \<^verbatim>\<open>for _, val := range principalIdMap\<close>.\<close>

definition principalIdListOf :: "helpers \<Rightarrow> (string \<times> string) list \<Rightarrow> string list" where
  "principalIdListOf h principalIdMap = map snd (mapRange h principalIdMap)"

definition collectRoleAssignments ::
  "helpers \<Rightarrow> subscription \<Rightarrow> roleAssignment page_result list \<Rightarrow>
   (string list \<Rightarrow> directoryObject page_result list) \<Rightarrow> world \<Rightarrow> outcome" where
  "collectRoleAssignments h subscription listing getObjects w =
     (case sub_SubscriptionID subscription of
        None \<Rightarrow> Panicked NilPointer w
      | Some subscriptionID \<Rightarrow>
          (case ListComplete listing of
             Inl err \<Rightarrow> Panicked err w
           | Inr list \<Rightarrow>
               (case forNotDone (roleAssignmentRow h subscription) list (NewMetricsList, []) of
                  None \<Rightarrow> Panicked NilPointer w
                | Some (infoMetric, principalIdMap) \<Rightarrow>
                    andThen
                      (collectPrincipals h subscription getObjects
                         (principalIdListOf h principalIdMap) w)
                      (\<lambda>w'. Returned (send [CallGaugeSet infoMetric RoleAssignmentGauge] w')))))"

definition AzureRmIam_Collect ::
  "helpers \<Rightarrow> subscription \<Rightarrow> roleDefinition page_result list \<Rightarrow>
   roleAssignment page_result list \<Rightarrow> (string list \<Rightarrow> directoryObject page_result list) \<Rightarrow>
   world \<Rightarrow> outcome" where
  "AzureRmIam_Collect h subscription definitions assignments getObjects w =
     andThen (collectRoleDefinitions h subscription definitions w)
       (collectRoleAssignments h subscription assignments getObjects)"

definition AzureRmIam_Reset :: "world \<Rightarrow> world" where
  "AzureRmIam_Reset w =
     (let reg = registry w;
          reg = reg(RoleDefinitionGauge := GaugeReset (reg RoleDefinitionGauge));
          reg = reg(RoleAssignmentGauge := GaugeReset (reg RoleAssignmentGauge));
          reg = reg(PrincipalGauge := GaugeReset (reg PrincipalGauge))
      in w\<lparr>registry := reg\<rparr>)"


section \<open>Notions used in the statements\<close>

text \<open>The world an outcome carries.\<close>

fun worldOf :: "outcome \<Rightarrow> world" where
  "worldOf (Returned w) = w"
| "worldOf (Panicked e w) = w"

text \<open>
  The batching in the words of the specification, to compare the loop of
  \<^verbatim>\<open>collectPrincipals\<close> with: the consecutive batches of at most \<open>n\<close> elements of a list.
\<close>

function consecutiveBatches :: "nat \<Rightarrow> 'a list \<Rightarrow> 'a list list" where
  "consecutiveBatches n xs =
     (if n = 0 \<or> xs = [] then [] else take n xs # consecutiveBatches n (drop n xs))"
  by pat_completeness auto
termination
  by (relation "measure (\<lambda>(n, xs). length xs)") auto

text \<open>
  The values that a loop over the iterator of a listing reaches: those of the pages up to
  the first request that fails or the first page without values.
\<close>

fun visited :: "'r page_result list \<Rightarrow> 'r list" where
  "visited [] = []"
| "visited (PageError # rest) = []"
| "visited (Page v # rest) = (if pageValues v = [] then [] else pageValues v @ visited rest)"

text \<open>The body of a loop applied to a list of values in order; \<open>None\<close> is a panic of the
  body.\<close>

fun foldOption :: "('r \<Rightarrow> 's \<Rightarrow> 's option) \<Rightarrow> 'r list \<Rightarrow> 's \<Rightarrow> 's option" where
  "foldOption body [] s = Some s"
| "foldOption body (val # vals) s =
     (case body val s of None \<Rightarrow> None | Some s' \<Rightarrow> foldOption body vals s')"

text \<open>
  The info sample of one principal, with the four labels that \<^verbatim>\<open>Setup\<close> registers for
  the gauge \<^verbatim>\<open>azurerm_iam_principal_info\<close>.
\<close>

definition principalInfo :: "helpers \<Rightarrow> string \<Rightarrow> directoryObjectFields \<Rightarrow> MetricRow" where
  "principalInfo h subscriptionID object = \<lparr>rowLabels = [
       ''subscriptionID'' \<mapsto> subscriptionID,
       ''principalID'' \<mapsto> stringPtrToString h (do_ObjectID object),
       ''principalName'' \<mapsto> stringPtrToString h (do_DisplayName object),
       ''principalType'' \<mapsto> do_ObjectType object],
     rowValue = 1, rowKind = GaugeInfo\<rparr>"

text \<open>The samples expected for one directory object: one for an object of the four
  recognised kinds, none for any other.\<close>

fun principalInfos :: "helpers \<Rightarrow> string \<Rightarrow> directoryObject \<Rightarrow> MetricList" where
  "principalInfos h subscriptionID (ADGroup object) = [principalInfo h subscriptionID object]"
| "principalInfos h subscriptionID (Application object) = [principalInfo h subscriptionID object]"
| "principalInfos h subscriptionID (ServicePrincipal object) =
     [principalInfo h subscriptionID object]"
| "principalInfos h subscriptionID (User object) = [principalInfo h subscriptionID object]"
| "principalInfos h subscriptionID OtherObject = []"




section \<open>Example inputs\<close>

text \<open>Concrete helpers, rows and listings on which the statements below are evaluated.\<close>

definition labelsA :: labels where
  "labelsA = [''id'' \<mapsto> ''a'']"

definition labelsB :: labels where
  "labelsB = [''id'' \<mapsto> ''b'']"

definition publisherA :: publisher where
  "publisherA = \<lparr>schema = [''id''], series = [(labelsA, 4)]\<rparr>"

definition metricsA :: MetricList where
  "metricsA = AddInfo labelsA (Add labelsB 3 (Add labelsA 7 NewMetricsList))"

definition worldA :: world where
  "worldA = \<lparr>registry = (\<lambda>g. publisherA), callback = [], applied = []\<rparr>"








definition stringOrEmpty :: "string option \<Rightarrow> string" where
  "stringOrEmpty p = (case p of None \<Rightarrow> [] | Some s \<Rightarrow> s)"

definition helpersA :: helpers where
  "helpersA = \<lparr>
     to_String = stringOrEmpty,
     to_StringLower = stringOrEmpty,
     stringToStringLower = (\<lambda>s. s),
     stringPtrToString = stringOrEmpty,
     ParseResourceId = (\<lambda>s. \<lparr>ar_Subscription = ''s1'', ar_ResourceGroup = ''rg1'',
        ar_ResourceName = s, ar_ResourceProviderName = ''p'', ar_ResourceType = ''t''\<rparr>),
     AddResourceTagsToPrometheusLabels = (\<lambda>l t names. l),
     opts_ResourceTags = [],
     opts_ResourceGroupTags = [],
     appendPrometheusLabel = (\<lambda>l t. l),
     extractResourceGroupFromAzureId = (\<lambda>s. ''rg1''),
     extractRoleDefinitionIdFromAzureId = (\<lambda>s. s),
     mapRange = rev\<rparr>"

definition subscriptionA :: subscription where
  "subscriptionA = \<lparr>sub_SubscriptionID = Some ''s1'', sub_ID = Some ''/subscriptions/s1''\<rparr>"

definition serverA :: server where
  "serverA = \<lparr>
     srv_ID = Some ''db1'',
     srv_Location = Some ''westeurope'',
     srv_Name = Some ''db1'',
     srv_Sku = None,
     srv_Version = ''11'',
     srv_FullyQualifiedDomainName = Some ''db1.example'',
     srv_SslEnforcement = ''Enabled'',
     srv_StorageProfile = Some \<lparr>sp_GeoRedundantBackup = ''Disabled'',
        sp_BackupRetentionDays = Some 7, sp_StorageMB = Some 5120\<rparr>,
     srv_EarliestRestoreDate = None,
     srv_ReplicaCapacity = None,
     srv_Tags = Map.empty\<rparr>"

definition postgresqlInfoA :: MetricList where
  "postgresqlInfoA = [\<lparr>rowLabels = [
       ''resourceID'' \<mapsto> ''db1'', ''subscriptionID'' \<mapsto> ''s1'',
       ''location'' \<mapsto> ''westeurope'', ''type'' \<mapsto> ''postgresql'',
       ''serverName'' \<mapsto> ''db1'', ''resourceGroup'' \<mapsto> ''rg1'',
       ''skuName'' \<mapsto> [], ''skuTier'' \<mapsto> [], ''version'' \<mapsto> ''11'',
       ''fqdn'' \<mapsto> ''db1.example'', ''sslEnforcement'' \<mapsto> ''Enabled'',
       ''geoRedundantBackup'' \<mapsto> ''Disabled''],
     rowValue = 1, rowKind = GaugeValue\<rparr>]"

definition mysqlInfoA :: MetricList where
  "mysqlInfoA = [\<lparr>rowLabels = [
       ''resourceID'' \<mapsto> ''db1'', ''subscriptionID'' \<mapsto> ''s1'',
       ''location'' \<mapsto> ''westeurope'', ''serverName'' \<mapsto> ''db1'',
       ''type'' \<mapsto> ''mysql'', ''resourceGroup'' \<mapsto> ''rg1'',
       ''skuName'' \<mapsto> [], ''skuTier'' \<mapsto> [], ''version'' \<mapsto> ''11'',
       ''fqdn'' \<mapsto> ''db1.example'', ''sslEnforcement'' \<mapsto> ''Enabled'',
       ''geoRedundantBackup'' \<mapsto> ''Disabled''],
     rowValue = 1, rowKind = GaugeInfo\<rparr>]"

definition statusA :: MetricList where
  "statusA = [
     \<lparr>rowLabels = [''resourceID'' \<mapsto> ''db1'', ''type'' \<mapsto> ''backupRetentionDays''],
      rowValue = 7, rowKind = GaugeValue\<rparr>,
     \<lparr>rowLabels = [''resourceID'' \<mapsto> ''db1'', ''type'' \<mapsto> ''storage''],
      rowValue = 5368709120, rowKind = GaugeValue\<rparr>]"

definition serverB :: server where
  "serverB = serverA\<lparr>srv_FullyQualifiedDomainName := None\<rparr>"

definition noObjects :: "string list \<Rightarrow> directoryObject page_result list" where
  "noObjects ids = []"






definition manyIds :: "string list" where
  "manyIds = replicate 2500 ''p1''"





definition userObject :: "string \<Rightarrow> directoryObject" where
  "userObject i = User \<lparr>do_ObjectID = Some i, do_DisplayName = Some i, do_ObjectType = ''User''\<rparr>"

definition userObjects :: "string list \<Rightarrow> directoryObject page_result list" where
  "userObjects ids = [Page (Some (map userObject ids))]"

definition principalInfoRow :: "string \<Rightarrow> MetricRow" where
  "principalInfoRow i = \<lparr>rowLabels = [
       ''subscriptionID'' \<mapsto> ''s1'', ''principalID'' \<mapsto> i, ''principalName'' \<mapsto> i,
       ''principalType'' \<mapsto> ''User''],
     rowValue = 1, rowKind = GaugeInfo\<rparr>"

definition mixedObjects :: "string list \<Rightarrow> directoryObject page_result list" where
  "mixedObjects ids = [
     Page (Some [userObject ''p1'', OtherObject]),
     Page (Some [ADGroup \<lparr>do_ObjectID = Some ''p2'', do_DisplayName = None,
                         do_ObjectType = ''Group''\<rparr>])]"

definition groupInfoRowA :: MetricRow where
  "groupInfoRowA = \<lparr>rowLabels = [
       ''subscriptionID'' \<mapsto> ''s1'', ''principalID'' \<mapsto> ''p2'', ''principalName'' \<mapsto> [],
       ''principalType'' \<mapsto> ''Group''],
     rowValue = 1, rowKind = GaugeInfo\<rparr>"



section \<open>Applying a metric list to a publisher\<close>


lemma fold_update_distinct:
  "distinct (map fst t) \<Longrightarrow>
   distinct (map fst (fold (\<lambda>r t. AList.update (rowLabels r) (rowValue r) t) m t))"
  by (induction m arbitrary: t) (simp_all add: distinct_update)

lemma fold_update_map_of:
  "map_of (fold (\<lambda>r t. AList.update (rowLabels r) (rowValue r) t) m t) =
   map_of t ++ map_of (rev (map (\<lambda>r. (rowLabels r, rowValue r)) m))"
  by (induction m arbitrary: t) (simp_all add: update_conv' map_add_upd_left)

lemma map_of_find_rows:
  "map_of (map (\<lambda>r. (rowLabels r, rowValue r)) m) l =
   map_option rowValue (find (\<lambda>r. rowLabels r = l) m)"
  by (induction m) auto

lemma buildSeries_distinct: "distinct (map fst (buildSeries m))"
  unfolding buildSeries_def by (rule fold_update_distinct) simp

lemma buildSeries_map_of:
  "map_of (buildSeries m) l = map_option rowValue (find (\<lambda>r. rowLabels r = l) (rev m))"
  unfolding buildSeries_def
  by (simp add: fold_update_map_of rev_map map_of_find_rows)

lemma buildSeries_keys: "set (map fst (buildSeries m)) = rowLabels ` set m"
proof -
  have "set (map fst (buildSeries m)) = dom (map_of (buildSeries m))"
    by (simp add: dom_map_of_conv_image_fst)
  also have "\<dots> = rowLabels ` set m"
    unfolding buildSeries_def
    by (simp add: fold_update_map_of dom_map_of_conv_image_fst image_image)
  finally show ?thesis .
qed

  


lemma labelsA_neq_labelsB: "labelsA \<noteq> labelsB" "labelsB \<noteq> labelsA"
  by (auto simp: labelsA_def labelsB_def dest: map_upd_eqD1)

lemma GaugeSet_series: "GaugeSet S p = Inr p' \<Longrightarrow> series p' = buildSeries S"
  by (auto simp: GaugeSet_def split: if_splits)

text \<open>
  C6: after a metric list \<open>S\<close> has been applied to a publisher, the snapshot has exactly one
  row for each distinct label set occurring in \<open>S\<close>, and the value of the row is the value
  of the last sample of \<open>S\<close> with that label set: a duplicate overwrites, it is never added.
\<close>

theorem snapshot_one_row_per_label_set:
  assumes "GaugeSet S p = Inr p'"
  shows "distinct (map fst (snapshot p')) \<and>
         set (map fst (snapshot p')) = rowLabels ` set S \<and>
         length (snapshot p') = card (rowLabels ` set S) \<and>
         (\<forall>l. map_of (snapshot p') l =
                map_option rowValue (find (\<lambda>r. rowLabels r = l) (rev S)))"
proof -
  from assms have s: "snapshot p' = buildSeries S"
    by (simp add: snapshot_def GaugeSet_series)
  have d: "distinct (map fst (buildSeries S))" by (rule buildSeries_distinct)
  have k: "set (map fst (buildSeries S)) = rowLabels ` set S" by (rule buildSeries_keys)
  have "length (buildSeries S) = length (map fst (buildSeries S))" by simp
  also have "\<dots> = card (set (map fst (buildSeries S)))"
    using d by (rule distinct_card [symmetric])
  finally have c: "length (buildSeries S) = card (rowLabels ` set S)"
    using k by simp
  from s d k c show ?thesis by (simp add: buildSeries_map_of)
qed

lemma buildSeries_metricsA: "buildSeries metricsA = [(labelsA, 1), (labelsB, 3)]"
  by (simp add: buildSeries_def metricsA_def AddInfo_def Add_def NewMetricsList_def
      labelsA_neq_labelsB)

lemma GaugeSet_metricsA:
  "GaugeSet metricsA publisherA = Inr (publisherA\<lparr>series := [(labelsA, 1), (labelsB, 3)]\<rparr>)"
  by (simp add: GaugeSet_def buildSeries_metricsA)
     (simp add: metricsA_def AddInfo_def Add_def NewMetricsList_def matchesSchema_def
        publisherA_def labelsA_def labelsB_def)

theorem snapshot_one_row_per_label_set_witness:
  "GaugeSet metricsA publisherA = Inr (publisherA\<lparr>series := [(labelsA, 1), (labelsB, 3)]\<rparr>) \<and>
   snapshot (publisherA\<lparr>series := [(labelsA, 1), (labelsB, 3)]\<rparr>) = [(labelsA, 1), (labelsB, 3)] \<and>
   distinct (map fst (snapshot (publisherA\<lparr>series := [(labelsA, 1), (labelsB, 3)]\<rparr>))) \<and>
   set (map fst (snapshot (publisherA\<lparr>series := [(labelsA, 1), (labelsB, 3)]\<rparr>))) =
     rowLabels ` set metricsA \<and>
   length (snapshot (publisherA\<lparr>series := [(labelsA, 1), (labelsB, 3)]\<rparr>)) =
     card (rowLabels ` set metricsA) \<and>
   (\<forall>l. map_of (snapshot (publisherA\<lparr>series := [(labelsA, 1), (labelsB, 3)]\<rparr>)) l =
          map_option rowValue (find (\<lambda>r. rowLabels r = l) (rev metricsA)))"
proof -
  have s: "snapshot (publisherA\<lparr>series := [(labelsA, 1), (labelsB, 3)]\<rparr>) =
           [(labelsA, 1), (labelsB, 3)]"
    by (simp add: snapshot_def)
  from s GaugeSet_metricsA snapshot_one_row_per_label_set [OF GaugeSet_metricsA]
  show ?thesis by blast
qed

section \<open>Reset and info samples\<close>

lemma GaugeSet_NewMetricsList: "GaugeSet NewMetricsList p = Inr (GaugeReset p)"
  by (simp add: GaugeSet_def NewMetricsList_def GaugeReset_def buildSeries_def)

lemma snapshot_GaugeReset: "snapshot (GaugeReset p) = []"
  by (simp add: snapshot_def GaugeReset_def)

text \<open>
  C7: resetting a publisher is applying the empty metric list to it. After any earlier
  apply, applying the empty list (or resetting) leaves a snapshot of length 0; the
  \<^verbatim>\<open>Reset\<close> functions of the collectors do this to each of their gauges.
\<close>

theorem reset_is_apply_of_empty_list:
  "GaugeSet NewMetricsList p = Inr (GaugeReset p) \<and>
   (GaugeSet S p = Inr p' \<longrightarrow>
      GaugeSet NewMetricsList p' = Inr (GaugeReset p') \<and> length (snapshot (GaugeReset p')) = 0) \<and>
   (\<forall>g \<in> {ResourceGauge, ResourceGroupGauge}.
      GaugeSet NewMetricsList (registry w g) = Inr (registry (AzureRmResources_Reset w) g) \<and>
      snapshot (registry (AzureRmResources_Reset w) g) = []) \<and>
   (\<forall>g \<in> {RoleDefinitionGauge, RoleAssignmentGauge, PrincipalGauge}.
      GaugeSet NewMetricsList (registry w g) = Inr (registry (AzureRmIam_Reset w) g) \<and>
      snapshot (registry (AzureRmIam_Reset w) g) = [])"
  by (simp add: GaugeSet_NewMetricsList snapshot_GaugeReset AzureRmResources_Reset_def
      AzureRmIam_Reset_def Let_def)

theorem reset_is_apply_of_empty_list_witness:
  "GaugeSet metricsA publisherA = Inr (publisherA\<lparr>series := [(labelsA, 1), (labelsB, 3)]\<rparr>) \<and>
   length (snapshot (publisherA\<lparr>series := [(labelsA, 1), (labelsB, 3)]\<rparr>)) = 2 \<and>
   GaugeSet NewMetricsList (publisherA\<lparr>series := [(labelsA, 1), (labelsB, 3)]\<rparr>) =
     Inr (GaugeReset (publisherA\<lparr>series := [(labelsA, 1), (labelsB, 3)]\<rparr>)) \<and>
   length (snapshot (GaugeReset (publisherA\<lparr>series := [(labelsA, 1), (labelsB, 3)]\<rparr>))) = 0 \<and>
   ResourceGauge \<in> {ResourceGauge, ResourceGroupGauge} \<and>
   snapshot (registry worldA ResourceGauge) = [(labelsA, 4)] \<and>
   snapshot (registry (AzureRmResources_Reset worldA) ResourceGauge) = [] \<and>
   PrincipalGauge \<in> {RoleDefinitionGauge, RoleAssignmentGauge, PrincipalGauge} \<and>
   snapshot (registry (AzureRmIam_Reset worldA) PrincipalGauge) = []"
proof -
  note t = reset_is_apply_of_empty_list [where S = metricsA and p = publisherA
      and p' = "publisherA\<lparr>series := [(labelsA, 1), (labelsB, 3)]\<rparr>" and w = worldA]
  have s: "length (snapshot (publisherA\<lparr>series := [(labelsA, 1), (labelsB, 3)]\<rparr>)) = 2"
    by (simp add: snapshot_def)
  have a: "snapshot (registry worldA ResourceGauge) = [(labelsA, 4)]"
    by (simp add: snapshot_def worldA_def publisherA_def)
  from t s a GaugeSet_metricsA show ?thesis by blast
qed

lemma built_info_value: "built S \<Longrightarrow> r \<in> set S \<Longrightarrow> rowKind r = GaugeInfo \<Longrightarrow> rowValue r = 1"
  by (induction rule: built.induct)
     (auto simp: NewMetricsList_def AddInfo_def Add_def AddTime_def)

lemma info_row_value:
  assumes "built S" and "GaugeSet S p = Inr p'" and "(l, v) \<in> set (snapshot p')"
    and "find (\<lambda>r. rowLabels r = l) (rev S) = Some r" and "rowKind r = GaugeInfo"
  shows "v = 1"
proof -
  from assms(2) have s: "snapshot p' = buildSeries S"
    by (simp add: snapshot_def GaugeSet_series)
  with assms(3) have "map_of (buildSeries S) l = Some v"
    using buildSeries_distinct [of S] by simp
  with assms(4) have "v = rowValue r" by (simp add: buildSeries_map_of)
  moreover from assms(4) have "r \<in> set S"
    by (metis find_Some_iff nth_mem set_rev)
  ultimately show ?thesis using assms(1,5) built_info_value by blast
qed

lemma postgresqlRow_info:
  "postgresqlRow h sub val ms = Some ms' \<Longrightarrow> \<exists>l. fst ms' = Add l 1 (fst ms)"
  by (auto simp: postgresqlRow_def Let_def split: option.splits Option.bind_splits prod.splits)

lemma mysqlRow_info:
  "mysqlRow h sub val ms = Some ms' \<Longrightarrow> \<exists>l. fst ms' = AddInfo l (fst ms)"
  by (auto simp: mysqlRow_def Let_def split: option.splits Option.bind_splits prod.splits)

lemma serverRows_info_values:
  assumes step: "\<And>val ms ms'. row val ms = Some ms' \<Longrightarrow>
                   (\<exists>l. fst ms' = Add l 1 (fst ms)) \<or> (\<exists>l. fst ms' = AddInfo l (fst ms))"
  shows "serverRows row servers ms = Some ms' \<Longrightarrow> \<forall>r \<in> set (fst ms). rowValue r = 1 \<Longrightarrow>
         \<forall>r \<in> set (fst ms'). rowValue r = 1"
proof (induction servers arbitrary: ms)
  case Nil
  then show ?case by simp
next
  case (Cons val rest)
  from Cons.prems(1) obtain ms1 where r: "row val ms = Some ms1"
    and rs: "serverRows row rest ms1 = Some ms'"
    by (auto split: option.splits)
  from step [OF r] Cons.prems(2) have "\<forall>r \<in> set (fst ms1). rowValue r = 1"
    by (auto simp: Add_def AddInfo_def)
  with Cons.IH [OF rs] show ?case by simp
qed

lemmas example_defs = helpersA_def subscriptionA_def serverA_def worldA_def stringOrEmpty_def
  NewMetricsList_def Add_def AddInfo_def AddTime_def send_def

lemma postgresql_serverA:
  "collectAzureDatabasePostgresql helpersA subscriptionA (Inr (Some [serverA])) worldA =
   Returned (send [CallGaugeSet postgresqlInfoA DatabaseGauge,
                   CallGaugeSet statusA DatabaseStatusGauge] worldA)"
  by (simp add: collectAzureDatabasePostgresql_def postgresqlRow_def example_defs
      postgresqlInfoA_def statusA_def)

lemma mysql_serverA:
  "collectAzureDatabaseMysql helpersA subscriptionA (Inr (Some [serverA])) worldA =
   Returned (send [CallGaugeSet mysqlInfoA DatabaseGauge,
                   CallGaugeSet statusA DatabaseStatusGauge] worldA)"
  by (simp add: collectAzureDatabaseMysql_def mysqlRow_def example_defs
      mysqlInfoA_def statusA_def)

lemma collectAzureDatabasePostgresql_Returned:
  assumes "collectAzureDatabasePostgresql h sub list w = Returned w'"
  shows "\<exists>info status.
           w' = send [CallGaugeSet info DatabaseGauge, CallGaugeSet status DatabaseStatusGauge] w \<and>
           list_all (\<lambda>r. rowValue r = 1) info"
proof -
  from assms obtain servers info status where
    rows: "serverRows (postgresqlRow h sub) servers (NewMetricsList, NewMetricsList) =
           Some (info, status)"
    and w': "w' = send [CallGaugeSet info DatabaseGauge, CallGaugeSet status DatabaseStatusGauge] w"
    by (auto simp: collectAzureDatabasePostgresql_def split: option.splits sum.splits)
  have "\<forall>r \<in> set (fst (info, status)). rowValue r = 1"
    by (rule serverRows_info_values [OF _ rows]) (auto simp: NewMetricsList_def dest: postgresqlRow_info)
  with w' show ?thesis by (auto simp: list_all_iff)
qed

lemma collectAzureDatabaseMysql_Returned:
  assumes "collectAzureDatabaseMysql h sub list w = Returned w'"
  shows "\<exists>info status.
           w' = send [CallGaugeSet info DatabaseGauge, CallGaugeSet status DatabaseStatusGauge] w \<and>
           list_all (\<lambda>r. rowValue r = 1) info"
proof -
  from assms obtain servers info status where
    rows: "serverRows (mysqlRow h sub) servers (NewMetricsList, NewMetricsList) =
           Some (info, status)"
    and w': "w' = send [CallGaugeSet info DatabaseGauge, CallGaugeSet status DatabaseStatusGauge] w"
    by (auto simp: collectAzureDatabaseMysql_def split: option.splits sum.splits)
  have "\<forall>r \<in> set (fst (info, status)). rowValue r = 1"
    by (rule serverRows_info_values [OF _ rows]) (auto simp: NewMetricsList_def dest: mysqlRow_info)
  with w' show ?thesis by (auto simp: list_all_iff)
qed

text \<open>
  C9: \<^verbatim>\<open>AddInfo\<close> appends a sample of value 1 and of kind gauge-info, and \<^verbatim>\<open>Add\<close> with
  value 1 appends a sample of the same value. Hence a row of a snapshot whose label set was
  last added as an info sample has value 1, and every row of the info list that the
  PostgreSQL collector (with \<^verbatim>\<open>Add(infoLabels, 1)\<close>) and the MySQL collector (with
  \<^verbatim>\<open>AddInfo(infoLabels)\<close>) send has value 1.
\<close>

theorem info_samples_have_value_one:
  "rowValue (last (AddInfo l m)) = 1 \<and> rowKind (last (AddInfo l m)) = GaugeInfo \<and>
   rowValue (last (Add l 1 m)) = rowValue (last (AddInfo l m)) \<and>
   (built S \<and> GaugeSet S p = Inr p' \<and> (l', v) \<in> set (snapshot p') \<and>
    find (\<lambda>r. rowLabels r = l') (rev S) = Some r \<and> rowKind r = GaugeInfo \<longrightarrow> v = 1) \<and>
   (collectAzureDatabasePostgresql h sub list w = Returned w1 \<longrightarrow>
      (\<exists>info status.
         w1 = send [CallGaugeSet info DatabaseGauge, CallGaugeSet status DatabaseStatusGauge] w \<and>
         list_all (\<lambda>r. rowValue r = 1) info)) \<and>
   (collectAzureDatabaseMysql h sub list' w = Returned w2 \<longrightarrow>
      (\<exists>info status.
         w2 = send [CallGaugeSet info DatabaseGauge, CallGaugeSet status DatabaseStatusGauge] w \<and>
         list_all (\<lambda>r. rowValue r = 1) info))"
proof -
  have a: "rowValue (last (AddInfo l m)) = 1 \<and> rowKind (last (AddInfo l m)) = GaugeInfo \<and>
           rowValue (last (Add l 1 m)) = rowValue (last (AddInfo l m))"
    by (simp add: AddInfo_def Add_def)
  have b: "built S \<and> GaugeSet S p = Inr p' \<and> (l', v) \<in> set (snapshot p') \<and>
           find (\<lambda>r. rowLabels r = l') (rev S) = Some r \<and> rowKind r = GaugeInfo \<longrightarrow> v = 1"
    using info_row_value by blast
  from a b collectAzureDatabasePostgresql_Returned collectAzureDatabaseMysql_Returned
  show ?thesis by blast
qed

lemma built_metricsA: "built metricsA"
  unfolding metricsA_def by (intro built.intros)

theorem info_samples_have_value_one_witness:
  "built metricsA \<and>
   GaugeSet metricsA publisherA = Inr (publisherA\<lparr>series := [(labelsA, 1), (labelsB, 3)]\<rparr>) \<and>
   (labelsA, 1) \<in> set (snapshot (publisherA\<lparr>series := [(labelsA, 1), (labelsB, 3)]\<rparr>)) \<and>
   find (\<lambda>r. rowLabels r = labelsA) (rev metricsA) =
     Some \<lparr>rowLabels = labelsA, rowValue = 1, rowKind = GaugeInfo\<rparr> \<and>
   rowKind \<lparr>rowLabels = labelsA, rowValue = 1, rowKind = GaugeInfo\<rparr> = GaugeInfo \<and>
   collectAzureDatabasePostgresql helpersA subscriptionA (Inr (Some [serverA])) worldA =
     Returned (send [CallGaugeSet postgresqlInfoA DatabaseGauge,
                     CallGaugeSet statusA DatabaseStatusGauge] worldA) \<and>
   collectAzureDatabaseMysql helpersA subscriptionA (Inr (Some [serverA])) worldA =
     Returned (send [CallGaugeSet mysqlInfoA DatabaseGauge,
                     CallGaugeSet statusA DatabaseStatusGauge] worldA) \<and>
   rowValue (last (AddInfo labelsA metricsA)) = 1 \<and>
   rowValue (last (Add labelsA 1 metricsA)) = rowValue (last (AddInfo labelsA metricsA)) \<and>
   (\<exists>info status.
      send [CallGaugeSet postgresqlInfoA DatabaseGauge,
            CallGaugeSet statusA DatabaseStatusGauge] worldA =
      send [CallGaugeSet info DatabaseGauge, CallGaugeSet status DatabaseStatusGauge] worldA \<and>
      list_all (\<lambda>r. rowValue r = 1) info) \<and>
   (\<exists>info status.
      send [CallGaugeSet mysqlInfoA DatabaseGauge,
            CallGaugeSet statusA DatabaseStatusGauge] worldA =
      send [CallGaugeSet info DatabaseGauge, CallGaugeSet status DatabaseStatusGauge] worldA \<and>
      list_all (\<lambda>r. rowValue r = 1) info)"
proof -
  have m: "(labelsA, 1) \<in> set (snapshot (publisherA\<lparr>series := [(labelsA, 1), (labelsB, 3)]\<rparr>))"
    by (simp add: snapshot_def)
  have f: "find (\<lambda>r. rowLabels r = labelsA) (rev metricsA) =
           Some \<lparr>rowLabels = labelsA, rowValue = 1, rowKind = GaugeInfo\<rparr>"
    by (simp add: metricsA_def AddInfo_def Add_def NewMetricsList_def)
  have k: "rowKind \<lparr>rowLabels = labelsA, rowValue = 1, rowKind = GaugeInfo\<rparr> = GaugeInfo"
    by simp
  note t = info_samples_have_value_one [where l = labelsA and m = metricsA and S = metricsA
      and p = publisherA and p' = "publisherA\<lparr>series := [(labelsA, 1), (labelsB, 3)]\<rparr>"
      and l' = labelsA and v = 1
      and r = "\<lparr>rowLabels = labelsA, rowValue = 1, rowKind = GaugeInfo\<rparr>"
      and h = helpersA and sub = subscriptionA and list = "Inr (Some [serverA])"
      and list' = "Inr (Some [serverA])" and w = worldA
      and ?w1.0 = "send [CallGaugeSet postgresqlInfoA DatabaseGauge,
                     CallGaugeSet statusA DatabaseStatusGauge] worldA"
      and ?w2.0 = "send [CallGaugeSet mysqlInfoA DatabaseGauge,
                     CallGaugeSet statusA DatabaseStatusGauge] worldA"]
  from t built_metricsA GaugeSet_metricsA m f k postgresql_serverA mysql_serverA
  show ?thesis by blast
qed

section \<open>Nil fields of database servers\<close>

lemma postgresqlRow_None_iff:
  "postgresqlRow h sub val ms = None \<longleftrightarrow>
     (\<exists>s. srv_Sku val = Some s \<and> sku_Name s = None) \<or>
     srv_ID val = None \<or> sub_SubscriptionID sub = None \<or>
     srv_Location val = None \<or> srv_Name val = None \<or>
     srv_FullyQualifiedDomainName val = None \<or> srv_StorageProfile val = None \<or>
     (\<exists>sp. srv_StorageProfile val = Some sp \<and>
           (sp_BackupRetentionDays sp = None \<or> sp_StorageMB sp = None))"
  by (cases "srv_StorageProfile val"; cases "srv_Sku val")
     (auto simp: postgresqlRow_def Let_def bind_eq_None_conv split: option.splits prod.splits)

lemma mysqlRow_None_iff:
  "mysqlRow h sub val ms = None \<longleftrightarrow>
     srv_ID val = None \<or> sub_SubscriptionID sub = None \<or>
     srv_FullyQualifiedDomainName val = None \<or> srv_StorageProfile val = None \<or>
     (\<exists>sp. srv_StorageProfile val = Some sp \<and>
           (sp_BackupRetentionDays sp = None \<or> sp_StorageMB sp = None))"
  by (cases "srv_StorageProfile val"; cases "srv_Sku val")
     (auto simp: mysqlRow_def Let_def bind_eq_None_conv split: option.splits prod.splits)

lemma serverRows_None:
  "val \<in> set servers \<Longrightarrow> (\<And>ms. row val ms = None) \<Longrightarrow> serverRows row servers ms = None"
  by (induction servers arbitrary: ms) (auto split: option.splits)

text \<open>
  C10: the PostgreSQL and the MySQL collector test \<^verbatim>\<open>Sku\<close>, \<^verbatim>\<open>EarliestRestoreDate\<close> and
  \<^verbatim>\<open>ReplicaCapacity\<close> for nil before use and dereference \<^verbatim>\<open>ID\<close>,
  \<^verbatim>\<open>FullyQualifiedDomainName\<close>, \<^verbatim>\<open>StorageProfile.BackupRetentionDays\<close> and
  \<^verbatim>\<open>StorageProfile.StorageMB\<close> without a test: a row panics exactly when one of the
  dereferenced fields is absent, and a listing with a row lacking one of the four fields
  makes the collector panic with nothing sent.
\<close>

theorem database_rows_unguarded_fields:
  "(postgresqlRow h sub val ms = None \<longleftrightarrow>
      (\<exists>s. srv_Sku val = Some s \<and> sku_Name s = None) \<or>
      srv_ID val = None \<or> sub_SubscriptionID sub = None \<or>
      srv_Location val = None \<or> srv_Name val = None \<or>
      srv_FullyQualifiedDomainName val = None \<or> srv_StorageProfile val = None \<or>
      (\<exists>sp. srv_StorageProfile val = Some sp \<and>
            (sp_BackupRetentionDays sp = None \<or> sp_StorageMB sp = None))) \<and>
   (mysqlRow h sub val ms = None \<longleftrightarrow>
      srv_ID val = None \<or> sub_SubscriptionID sub = None \<or>
      srv_FullyQualifiedDomainName val = None \<or> srv_StorageProfile val = None \<or>
      (\<exists>sp. srv_StorageProfile val = Some sp \<and>
            (sp_BackupRetentionDays sp = None \<or> sp_StorageMB sp = None))) \<and>
   (val \<in> set servers \<and>
    (srv_ID val = None \<or> srv_FullyQualifiedDomainName val = None \<or>
     (\<exists>sp. srv_StorageProfile val = Some sp \<and>
           (sp_BackupRetentionDays sp = None \<or> sp_StorageMB sp = None))) \<longrightarrow>
    collectAzureDatabasePostgresql h sub (Inr (Some servers)) w = Panicked NilPointer w \<and>
    collectAzureDatabaseMysql h sub (Inr (Some servers)) w = Panicked NilPointer w)"
proof (intro conjI impI)
  show "postgresqlRow h sub val ms = None \<longleftrightarrow>
      (\<exists>s. srv_Sku val = Some s \<and> sku_Name s = None) \<or>
      srv_ID val = None \<or> sub_SubscriptionID sub = None \<or>
      srv_Location val = None \<or> srv_Name val = None \<or>
      srv_FullyQualifiedDomainName val = None \<or> srv_StorageProfile val = None \<or>
      (\<exists>sp. srv_StorageProfile val = Some sp \<and>
            (sp_BackupRetentionDays sp = None \<or> sp_StorageMB sp = None))"
    by (rule postgresqlRow_None_iff)
  show "mysqlRow h sub val ms = None \<longleftrightarrow>
      srv_ID val = None \<or> sub_SubscriptionID sub = None \<or>
      srv_FullyQualifiedDomainName val = None \<or> srv_StorageProfile val = None \<or>
      (\<exists>sp. srv_StorageProfile val = Some sp \<and>
            (sp_BackupRetentionDays sp = None \<or> sp_StorageMB sp = None))"
    by (rule mysqlRow_None_iff)
next
  assume a: "val \<in> set servers \<and>
    (srv_ID val = None \<or> srv_FullyQualifiedDomainName val = None \<or>
     (\<exists>sp. srv_StorageProfile val = Some sp \<and>
           (sp_BackupRetentionDays sp = None \<or> sp_StorageMB sp = None)))"
  then have p: "\<And>ms. postgresqlRow h sub val ms = None"
    unfolding postgresqlRow_None_iff by blast
  from a have "serverRows (postgresqlRow h sub) servers (NewMetricsList, NewMetricsList) = None"
    by (intro serverRows_None [of val] p) simp
  then show "collectAzureDatabasePostgresql h sub (Inr (Some servers)) w = Panicked NilPointer w"
    by (simp add: collectAzureDatabasePostgresql_def split: option.splits)
next
  assume a: "val \<in> set servers \<and>
    (srv_ID val = None \<or> srv_FullyQualifiedDomainName val = None \<or>
     (\<exists>sp. srv_StorageProfile val = Some sp \<and>
           (sp_BackupRetentionDays sp = None \<or> sp_StorageMB sp = None)))"
  then have p: "\<And>ms. mysqlRow h sub val ms = None"
    unfolding mysqlRow_None_iff by blast
  from a have "serverRows (mysqlRow h sub) servers (NewMetricsList, NewMetricsList) = None"
    by (intro serverRows_None [of val] p) simp
  then show "collectAzureDatabaseMysql h sub (Inr (Some servers)) w = Panicked NilPointer w"
    by (simp add: collectAzureDatabaseMysql_def split: option.splits)
qed

theorem database_rows_unguarded_fields_witness:
  "serverB \<in> set [serverA, serverB] \<and>
   srv_ID serverB = Some ''db1'' \<and>
   srv_FullyQualifiedDomainName serverB = None \<and>
   collectAzureDatabasePostgresql helpersA subscriptionA (Inr (Some [serverA, serverB])) worldA =
     Panicked NilPointer worldA \<and>
   collectAzureDatabaseMysql helpersA subscriptionA (Inr (Some [serverA, serverB])) worldA =
     Panicked NilPointer worldA \<and>
   srv_Sku serverA = None \<and> srv_EarliestRestoreDate serverA = None \<and>
   srv_ReplicaCapacity serverA = None \<and>
   collectAzureDatabasePostgresql helpersA subscriptionA (Inr (Some [serverA])) worldA =
     Returned (send [CallGaugeSet postgresqlInfoA DatabaseGauge,
                     CallGaugeSet statusA DatabaseStatusGauge] worldA) \<and>
   collectAzureDatabaseMysql helpersA subscriptionA (Inr (Some [serverA])) worldA =
     Returned (send [CallGaugeSet mysqlInfoA DatabaseGauge,
                     CallGaugeSet statusA DatabaseStatusGauge] worldA)"
proof -
  have m: "serverB \<in> set [serverA, serverB]" by simp
  have i: "srv_ID serverB = Some ''db1''" by (simp add: serverB_def serverA_def)
  have f: "srv_FullyQualifiedDomainName serverB = None" by (simp add: serverB_def)
  have g: "srv_Sku serverA = None \<and> srv_EarliestRestoreDate serverA = None \<and>
           srv_ReplicaCapacity serverA = None"
    by (simp add: serverA_def)
  note t = database_rows_unguarded_fields [where val = serverB and servers = "[serverA, serverB]"
      and h = helpersA and sub = subscriptionA and w = worldA]
  from t m i f g postgresql_serverA mysql_serverA show ?thesis by blast
qed

section \<open>Frame of the collectors and number of emissions\<close>

lemma registry_send: "registry (send c w) = registry w"
  by (simp add: send_def)


lemma registry_andThen:
  assumes "\<And>w. registry (worldOf (f w)) = registry w"
  shows "registry (worldOf (andThen r f)) = registry (worldOf r)"
  using assms by (cases r) (simp_all add: andThen_def)

lemma registry_collectAzureResourceGroup:
  "registry (worldOf (collectAzureResourceGroup h sub client w)) = registry w"
  by (simp add: collectAzureResourceGroup_def registry_send split: option.splits sum.splits)

lemma registry_collectAzureResources:
  "registry (worldOf (collectAzureResources h sub client w)) = registry w"
  by (simp add: collectAzureResources_def registry_send split: option.splits sum.splits)

lemma registry_collectAzureDatabasePostgresql:
  "registry (worldOf (collectAzureDatabasePostgresql h sub list w)) = registry w"
  by (simp add: collectAzureDatabasePostgresql_def registry_send
      split: option.splits sum.splits prod.splits)

lemma registry_collectAzureDatabaseMysql:
  "registry (worldOf (collectAzureDatabaseMysql h sub list w)) = registry w"
  by (simp add: collectAzureDatabaseMysql_def registry_send
      split: option.splits sum.splits prod.splits)

lemma registry_collectRoleDefinitions:
  "registry (worldOf (collectRoleDefinitions h sub listing w)) = registry w"
  by (simp add: collectRoleDefinitions_def registry_send split: option.splits sum.splits)

lemma registry_collectPrincipals:
  "registry (worldOf (collectPrincipals h sub getObjects ids w)) = registry w"
  by (simp add: collectPrincipals_def registry_send split: sum.splits)

lemma registry_collectRoleAssignments:
  "registry (worldOf (collectRoleAssignments h sub listing getObjects w)) = registry w"
  by (simp add: collectRoleAssignments_def registry_send registry_andThen
      registry_collectPrincipals split: option.splits sum.splits prod.splits)

lemma runCalls_frame:
  "runCalls c reg = (e, reg') \<Longrightarrow> g \<notin> callTarget ` set c \<Longrightarrow> reg' g = reg g"
proof (induction c reg rule: runCalls.induct)
  case (1 reg)
  then show ?case by simp
next
  case (2 m g' cs reg)
  show ?case
  proof (cases "GaugeSet m (reg g')")
    case (Inl err)
    with "2.prems" show ?thesis by simp
  next
    case (Inr p)
    with "2.prems" have "runCalls cs (reg(g' := p)) = (e, reg')" and "g \<notin> callTarget ` set cs"
      and "g \<noteq> g'"
      by auto
    with "2.IH" [OF Inr] have "reg' g = (reg(g' := p)) g" by blast
    with \<open>g \<noteq> g'\<close> show ?thesis by simp
  qed
qed

lemma GraphApps_Collect_frame:
  "callback (worldOf (GraphApps_Collect h list w)) = callback w \<and>
   (g \<notin> {AppsGauge, AppsCredentialsGauge} \<longrightarrow>
      registry (worldOf (GraphApps_Collect h list w)) g = registry w g)"
  by (auto simp: GraphApps_Collect_def andThen_def doReset_def doGaugeSet_def
      split: sum.splits prod.splits)

text \<open>
  C8, as the code has it: the collectors that are given the completion channel
  (resources, databases, role definitions and assignments) leave the state of every
  publisher as it was, whether they return or panic, and a closure that is executed changes
  only the gauges its calls name. \<^verbatim>\<open>MetricsCollectorGraphApps.Collect\<close> is not given a
  channel: it sends nothing and itself resets and sets its two gauges, leaving the others
  as they were.
\<close>

theorem Collect_leaves_publishers:
  "registry (worldOf (AzureRmResources_Collect h sub groupsClient resourcesClient w)) = registry w \<and>
   registry (worldOf (AzureRmDatabase_Collect h sub postgresqlList mysqlList w)) = registry w \<and>
   registry (worldOf (AzureRmIam_Collect h sub definitions assignments getObjects w)) = registry w \<and>
   callback (worldOf (GraphApps_Collect h list w)) = callback w \<and>
   (g \<notin> {AppsGauge, AppsCredentialsGauge} \<longrightarrow>
      registry (worldOf (GraphApps_Collect h list w)) g = registry w g) \<and>
   (runCalls c reg = (e, reg') \<and> g' \<notin> callTarget ` set c \<longrightarrow> reg' g' = reg g')"
proof -
  have a: "registry (worldOf (AzureRmResources_Collect h sub groupsClient resourcesClient w)) =
           registry w"
    by (simp add: AzureRmResources_Collect_def registry_andThen
        registry_collectAzureResourceGroup registry_collectAzureResources)
  have b: "registry (worldOf (AzureRmDatabase_Collect h sub postgresqlList mysqlList w)) =
           registry w"
    by (simp add: AzureRmDatabase_Collect_def registry_andThen
        registry_collectAzureDatabasePostgresql registry_collectAzureDatabaseMysql)
  have c: "registry (worldOf (AzureRmIam_Collect h sub definitions assignments getObjects w)) =
           registry w"
    by (simp add: AzureRmIam_Collect_def registry_andThen
        registry_collectRoleDefinitions registry_collectRoleAssignments)
  from a b c GraphApps_Collect_frame [of h list w g] runCalls_frame [of c reg e reg' g']
  show ?thesis by blast
qed

lemma GraphApps_Collect_empty:
  "GraphApps_Collect helpersA (Inr []) worldA =
   Returned (worldA\<lparr>registry := (registry worldA)
       (AppsGauge := publisherA\<lparr>series := []\<rparr>, AppsCredentialsGauge := publisherA\<lparr>series := []\<rparr>),
     applied := [OpReset AppsGauge, OpReset AppsCredentialsGauge,
       OpGaugeSet [] AppsGauge, OpGaugeSet [] AppsCredentialsGauge]\<rparr>)"
  by (simp add: GraphApps_Collect_def andThen_def doReset_def doGaugeSet_def GaugeSet_def
      GaugeReset_def buildSeries_def NewMetricsList_def worldA_def)

theorem Collect_leaves_publishers_witness:
  "ResourceGauge \<notin> {AppsGauge, AppsCredentialsGauge} \<and>
   registry (worldOf (GraphApps_Collect helpersA (Inr []) worldA)) ResourceGauge =
     registry worldA ResourceGauge \<and>
   runCalls [CallGaugeSet NewMetricsList AppsGauge] (registry worldA) =
     (None, (registry worldA)(AppsGauge := publisherA\<lparr>series := []\<rparr>)) \<and>
   ResourceGauge \<notin> callTarget ` set [CallGaugeSet NewMetricsList AppsGauge] \<and>
   ((registry worldA)(AppsGauge := publisherA\<lparr>series := []\<rparr>)) ResourceGauge =
     registry worldA ResourceGauge \<and>
   registry (worldOf (AzureRmResources_Collect helpersA subscriptionA (Inr [Page None])
     (Inr [Page None]) worldA)) = registry worldA"
proof -
  have n: "ResourceGauge \<notin> {AppsGauge, AppsCredentialsGauge}" by simp
  have r: "runCalls [CallGaugeSet NewMetricsList AppsGauge] (registry worldA) =
           (None, (registry worldA)(AppsGauge := publisherA\<lparr>series := []\<rparr>))"
    by (simp add: GaugeSet_def buildSeries_def NewMetricsList_def worldA_def)
  have t: "ResourceGauge \<notin> callTarget ` set [CallGaugeSet NewMetricsList AppsGauge]" by simp
  note inst = Collect_leaves_publishers [where h = helpersA and sub = subscriptionA
      and groupsClient = "Inr [Page None]" and resourcesClient = "Inr [Page None]"
      and w = worldA and list = "Inr []" and g = ResourceGauge and g' = ResourceGauge
      and c = "[CallGaugeSet NewMetricsList AppsGauge]" and reg = "registry worldA"
      and e = None and reg' = "(registry worldA)(AppsGauge := publisherA\<lparr>series := []\<rparr>)"]
  from inst n r t show ?thesis by blast
qed

text \<open>C8 as stated fails for the collector of directory applications: its \<^verbatim>\<open>Collect\<close>
  changes the state of its gauge, here from one series to none.\<close>

theorem Collect_leaves_publishers_counterexample:
  "snapshot (registry worldA AppsGauge) = [(labelsA, 4)] \<and>
   snapshot (registry (worldOf (GraphApps_Collect helpersA (Inr []) worldA)) AppsGauge) = [] \<and>
   registry (worldOf (GraphApps_Collect helpersA (Inr []) worldA)) AppsGauge \<noteq>
     registry worldA AppsGauge"
  by (simp add: GraphApps_Collect_empty snapshot_def)
     (simp add: worldA_def publisherA_def)























section \<open>Batches of the principal lookup\<close>

declare consecutiveBatches.simps [simp del]

lemma concat_consecutiveBatches: "0 < n \<Longrightarrow> concat (consecutiveBatches n xs) = xs"
proof (induction n xs rule: consecutiveBatches.induct)
  case (1 n xs)
  then show ?case by (subst consecutiveBatches.simps) auto
qed

lemma consecutiveBatches_sizes:
  "c \<in> set (consecutiveBatches n xs) \<Longrightarrow> c \<noteq> [] \<and> length c \<le> n"
proof (induction n xs rule: consecutiveBatches.induct)
  case (1 n xs)
  from "1.prems" have ne: "\<not> (n = 0 \<or> xs = [])"
    by (subst (asm) consecutiveBatches.simps) (auto split: if_splits)
  with "1.prems" have "c = take n xs \<or> c \<in> set (consecutiveBatches n (drop n xs))"
    by (subst (asm) consecutiveBatches.simps) auto
  with "1.IH" [OF ne] ne show ?case by auto
qed

lemma slice_chunk:
  "i < length ids \<Longrightarrow>
   slice ids i (if i + chunkSize > length ids then length ids else i + chunkSize) =
   take chunkSize (drop i ids)"
  by (simp add: slice_def)

lemma consecutiveBatches_drop:
  "i < length ids \<Longrightarrow>
   consecutiveBatches chunkSize (drop i ids) =
   take chunkSize (drop i ids) # consecutiveBatches chunkSize (drop (i + chunkSize) ids)"
  by (subst consecutiveBatches.simps) (simp add: chunkSize_def add.commute)

lemma principalsLoop_step:
  assumes "i < length ids"
  shows "principalsLoop h sub getObjects ids i m =
     (case ListComplete (getObjects (take chunkSize (drop i ids))) of
        Inl err \<Rightarrow> ([take chunkSize (drop i ids)], Inl err)
      | Inr list \<Rightarrow>
          (case forNotDone (principalRow h sub) list m of
             None \<Rightarrow> ([take chunkSize (drop i ids)], Inl NilPointer)
           | Some m' \<Rightarrow>
               (case principalsLoop h sub getObjects ids (i + chunkSize) m' of
                  (chunks, result) \<Rightarrow> (take chunkSize (drop i ids) # chunks, result))))"
  by (subst principalsLoop.simps) (simp only: assms if_True Let_def slice_chunk [OF assms])

lemma consecutiveBatches_manyIds:
  "consecutiveBatches chunkSize manyIds =
   [replicate 999 ''p1'', replicate 999 ''p1'', replicate 502 ''p1'']"
  by (simp add: consecutiveBatches.simps manyIds_def chunkSize_def)

lemma principalsLoop_manyIds:
  "principalsLoop helpersA subscriptionA noObjects manyIds 0 NewMetricsList =
   ([replicate 999 ''p1'', replicate 999 ''p1'', replicate 502 ''p1''], Inr NewMetricsList)"
  by (simp add: manyIds_def chunkSize_def slice_def noObjects_def)

lemma principalsLoop_prefix:
  "\<exists>rest. consecutiveBatches chunkSize (drop i ids) =
          fst (principalsLoop h sub getObjects ids i m) @ rest \<and>
          (\<forall>m'. snd (principalsLoop h sub getObjects ids i m) = Inr m' \<longrightarrow> rest = [])"
proof (induction h sub getObjects ids i m rule: principalsLoop.induct)
  case (1 h sub getObjects ids i m)
  show ?case
  proof (cases "i < length ids")
    case False
    then have "consecutiveBatches chunkSize (drop i ids) = []"
      by (subst consecutiveBatches.simps) simp
    with False show ?thesis by simp
  next
    case True
    note step = principalsLoop_step [OF True, of h sub getObjects m]
    note batches = consecutiveBatches_drop [OF True]
    let ?chunk = "take chunkSize (drop i ids)"
    show ?thesis
    proof (cases "ListComplete (getObjects ?chunk)")
      case (Inl err)
      with step batches show ?thesis by (simp del: principalsLoop.simps forNotDone.simps)
    next
      case (Inr list)
      show ?thesis
      proof (cases "forNotDone (principalRow h sub) list m")
        case None
        with step batches Inr show ?thesis by (simp del: principalsLoop.simps forNotDone.simps)
      next
        case (Some m')
        have sl: "slice ids i (if i + chunkSize > length ids then length ids else i + chunkSize)
                  = ?chunk"
          by (rule slice_chunk [OF True])
        from Inr sl have Inr': "ListComplete (getObjects (slice ids i
            (if length ids < i + chunkSize then length ids else i + chunkSize))) = Inr list"
          by simp
        note IH = "1.IH" [OF True refl refl Inr' Some]
        obtain chunks result where r:
          "principalsLoop h sub getObjects ids (i + chunkSize) m' = (chunks, result)"
          by (cases "principalsLoop h sub getObjects ids (i + chunkSize) m'")
        with step Inr Some have eq:
          "principalsLoop h sub getObjects ids i m = (?chunk # chunks, result)"
          by (simp del: principalsLoop.simps forNotDone.simps)
        from IH r eq batches Inr Some show ?thesis
          by (auto simp del: principalsLoop.simps forNotDone.simps)
      qed
    qed
  qed
qed

lemma forNotDone_foldOption:
  "forNotDone body list s =
   foldOption body (fst list @ (if fst list = [] then [] else visited (snd list))) s"
proof (induction body list s rule: forNotDone.induct)
  case (1 body list s)
  obtain cur rest where l: "list = (cur, rest)" by (cases list)
  show ?case
  proof (cases cur)
    case Nil
    with l show ?thesis by simp
  next
    case (Cons val vals)
    show ?thesis
    proof (cases "body val s")
      case None
      with l Cons show ?thesis by simp
    next
      case (Some s')
      have step: "\<And>list'. NextWithContext list = Inr list' \<Longrightarrow>
          forNotDone body list' s' =
          foldOption body (fst list' @ (if fst list' = [] then [] else visited (snd list'))) s'"
        using "1.IH" [of val vals s'] l Cons Some by simp
      show ?thesis
      proof (cases vals)
        case (Cons y ys)
        with l \<open>cur = val # vals\<close> have n: "NextWithContext list = Inr (y # ys, rest)" by simp
        from step [OF n] n l \<open>cur = val # vals\<close> Cons Some show ?thesis
          by (subst forNotDone.simps) simp
      next
        case Nil
        show ?thesis
        proof (cases rest)
          case Nil
          with l \<open>cur = val # vals\<close> \<open>vals = []\<close> Some show ?thesis
            by (subst forNotDone.simps) simp
        next
          case (Cons p ps)
          show ?thesis
          proof (cases p)
            case PageError
            with l Cons \<open>cur = val # vals\<close> \<open>vals = []\<close> Some show ?thesis
              by (subst forNotDone.simps) simp
          next
            case (Page v)
            with l Cons \<open>cur = val # vals\<close> \<open>vals = []\<close>
            have n: "NextWithContext list = Inr (pageValues v, ps)" by simp
            from step [OF n] n l Cons Page \<open>cur = val # vals\<close> \<open>vals = []\<close> Some show ?thesis
              by (subst forNotDone.simps) simp
          qed
        qed
      qed
    qed
  qed
qed

lemma forNotDone_ListComplete:
  "ListComplete listing = Inr list \<Longrightarrow>
   forNotDone body list s = foldOption body (visited listing) s"
  by (cases listing rule: ListComplete.cases)
     (auto simp: forNotDone_foldOption simp del: forNotDone.simps)

lemma principalRow_rows:
  "sub_SubscriptionID sub = Some s \<Longrightarrow>
   principalRow h sub object m = Some (m @ principalInfos h s object)"
  by (cases object) (simp_all add: principalLabels_def AddInfo_def principalInfo_def)

lemma foldOption_append_rows:
  "(\<And>x m. body x m = Some (m @ rowsOf x)) \<Longrightarrow>
   foldOption body xs m = Some (m @ concat (map rowsOf xs))"
  by (induction xs arbitrary: m) simp_all

lemma principalsLoop_result:
  "sub_SubscriptionID sub = Some s \<Longrightarrow>
   \<forall>c \<in> set (consecutiveBatches chunkSize (drop i ids)). \<forall>rest. getObjects c \<noteq> PageError # rest \<Longrightarrow>
   principalsLoop h sub getObjects ids i m =
   (consecutiveBatches chunkSize (drop i ids),
    Inr (m @ concat (map (\<lambda>c. concat (map (principalInfos h s) (visited (getObjects c))))
                      (consecutiveBatches chunkSize (drop i ids)))))"
proof (induction h sub getObjects ids i m rule: principalsLoop.induct)
  case (1 h sub getObjects ids i m)
  show ?case
  proof (cases "i < length ids")
    case False
    then have "consecutiveBatches chunkSize (drop i ids) = []"
      by (subst consecutiveBatches.simps) simp
    with False show ?thesis by simp
  next
    case True
    let ?chunk = "take chunkSize (drop i ids)"
    note step = principalsLoop_step [OF True, of h sub getObjects m]
    note batches = consecutiveBatches_drop [OF True]
    from "1.prems"(2) batches have ok: "\<forall>rest. getObjects ?chunk \<noteq> PageError # rest"
      and ok': "\<forall>c \<in> set (consecutiveBatches chunkSize (drop (i + chunkSize) ids)).
                  \<forall>rest. getObjects c \<noteq> PageError # rest"
      by simp_all
    from ok obtain list where lc: "ListComplete (getObjects ?chunk) = Inr list"
      by (cases "getObjects ?chunk" rule: ListComplete.cases) auto
    have rows: "forNotDone (principalRow h sub) list m =
                Some (m @ concat (map (principalInfos h s) (visited (getObjects ?chunk))))"
      unfolding forNotDone_ListComplete [OF lc]
      by (rule foldOption_append_rows) (rule principalRow_rows [OF "1.prems"(1)])
    have sl: "slice ids i (if i + chunkSize > length ids then length ids else i + chunkSize)
              = ?chunk"
      by (rule slice_chunk [OF True])
    from lc sl have lc': "ListComplete (getObjects (slice ids i
        (if length ids < i + chunkSize then length ids else i + chunkSize))) = Inr list"
      by simp
    note IH = "1.IH" [OF True refl refl lc' rows "1.prems"(1) ok']
    from step lc rows IH batches show ?thesis
      by (simp del: principalsLoop.simps forNotDone.simps)
  qed
qed

text \<open>
  C4: the loop of \<^verbatim>\<open>collectPrincipals\<close> looks the identifiers up in the consecutive batches
  of at most 999 of the list: the batches are not empty, none is longer than 999, and
  joined in order they are the list, so every identifier is in exactly one batch. The
  calls are made one after the other in the order of the batches. When the loop ends
  without a panic every batch has been looked up and the function sends one metric list,
  once; when no first request of a lookup fails, that list holds, batch after batch and in
  the order the directory returned them, one info sample for every object of a recognised
  kind that the lookups returned.
\<close>

theorem principal_batches:
  "concat (consecutiveBatches chunkSize ids) = ids \<and>
   (\<forall>c \<in> set (consecutiveBatches chunkSize ids). c \<noteq> [] \<and> length c \<le> 999) \<and>
   (\<exists>rest. consecutiveBatches chunkSize ids =
           fst (principalsLoop h sub getObjects ids 0 NewMetricsList) @ rest) \<and>
   (snd (principalsLoop h sub getObjects ids 0 NewMetricsList) = Inr m \<longrightarrow>
      fst (principalsLoop h sub getObjects ids 0 NewMetricsList) =
        consecutiveBatches chunkSize ids \<and>
      collectPrincipals h sub getObjects ids w =
        Returned (send [CallGaugeSet m PrincipalGauge] w)) \<and>
   (sub_SubscriptionID sub = Some s \<and>
    (\<forall>c \<in> set (consecutiveBatches chunkSize ids). \<forall>rest. getObjects c \<noteq> PageError # rest) \<longrightarrow>
      fst (principalsLoop h sub getObjects ids 0 NewMetricsList) =
        consecutiveBatches chunkSize ids \<and>
      collectPrincipals h sub getObjects ids w =
        Returned (send [CallGaugeSet
          (concat (map (\<lambda>c. concat (map (principalInfos h s) (visited (getObjects c))))
                     (consecutiveBatches chunkSize ids))) PrincipalGauge] w))"
proof -
  have a: "concat (consecutiveBatches chunkSize ids) = ids"
    by (rule concat_consecutiveBatches) (simp add: chunkSize_def)
  have b: "\<forall>c \<in> set (consecutiveBatches chunkSize ids). c \<noteq> [] \<and> length c \<le> 999"
    using consecutiveBatches_sizes [of _ chunkSize ids] by (simp add: chunkSize_def)
  from principalsLoop_prefix [of 0 ids h sub getObjects NewMetricsList]
  obtain rest where d: "consecutiveBatches chunkSize ids =
      fst (principalsLoop h sub getObjects ids 0 NewMetricsList) @ rest"
    and e: "\<forall>m'. snd (principalsLoop h sub getObjects ids 0 NewMetricsList) = Inr m' \<longrightarrow> rest = []"
    by auto
  have f: "snd (principalsLoop h sub getObjects ids 0 NewMetricsList) = Inr m \<longrightarrow>
      fst (principalsLoop h sub getObjects ids 0 NewMetricsList) =
        consecutiveBatches chunkSize ids \<and>
      collectPrincipals h sub getObjects ids w =
        Returned (send [CallGaugeSet m PrincipalGauge] w)"
    using d e by (auto simp: collectPrincipals_def)
  have g: "fst (principalsLoop h sub getObjects ids 0 NewMetricsList) =
        consecutiveBatches chunkSize ids \<and>
      collectPrincipals h sub getObjects ids w =
        Returned (send [CallGaugeSet
          (concat (map (\<lambda>c. concat (map (principalInfos h s) (visited (getObjects c))))
                     (consecutiveBatches chunkSize ids))) PrincipalGauge] w)"
    if "sub_SubscriptionID sub = Some s"
      and "\<forall>c \<in> set (consecutiveBatches chunkSize ids). \<forall>rest. getObjects c \<noteq> PageError # rest"
    using principalsLoop_result [of sub s 0 ids getObjects h NewMetricsList] that
    by (simp add: collectPrincipals_def NewMetricsList_def del: principalsLoop.simps)
  from a b d f g show ?thesis by blast
qed

lemma concat_replicate_single: "concat (replicate n [x]) = replicate n x"
  by (induction n) simp_all

lemma principalInfos_userObject:
  "principalInfos helpersA ''s1'' (userObject i) = [principalInfoRow i]"
  by (simp add: userObject_def principalInfo_def principalInfoRow_def helpersA_def
      stringOrEmpty_def)

lemma userObjects_rows:
  "concat (map (\<lambda>c. concat (map (principalInfos helpersA ''s1'') (visited (userObjects c))))
     (consecutiveBatches chunkSize manyIds)) = replicate 2500 (principalInfoRow ''p1'')"
  by (simp add: consecutiveBatches_manyIds userObjects_def pageValues_def
      principalInfos_userObject comp_def concat_replicate_single
      replicate_add [symmetric])

lemma mixedObjects_rows:
  "concat (map (\<lambda>c. concat (map (principalInfos helpersA ''s1'') (visited (mixedObjects c))))
     (consecutiveBatches chunkSize [''p1'', ''p2''])) = [principalInfoRow ''p1'', groupInfoRowA]"
  by (simp add: consecutiveBatches.simps chunkSize_def mixedObjects_def pageValues_def
      principalInfos_userObject)
     (simp add: principalInfo_def groupInfoRowA_def helpersA_def stringOrEmpty_def)

theorem principal_batches_witness:
  "consecutiveBatches chunkSize manyIds =
     [replicate 999 ''p1'', replicate 999 ''p1'', replicate 502 ''p1''] \<and>
   length manyIds = 2500 \<and>
   replicate 502 ''p1'' \<in> set (consecutiveBatches chunkSize manyIds) \<and>
   replicate 502 ''p1'' \<noteq> [] \<and> length (replicate 502 ''p1'') \<le> 999 \<and>
   concat (consecutiveBatches chunkSize manyIds) = manyIds \<and>
   snd (principalsLoop helpersA subscriptionA noObjects manyIds 0 NewMetricsList) =
     Inr NewMetricsList \<and>
   fst (principalsLoop helpersA subscriptionA noObjects manyIds 0 NewMetricsList) =
     consecutiveBatches chunkSize manyIds \<and>
   collectPrincipals helpersA subscriptionA noObjects manyIds worldA =
     Returned (send [CallGaugeSet NewMetricsList PrincipalGauge] worldA) \<and>
   sub_SubscriptionID subscriptionA = Some ''s1'' \<and>
   (\<forall>c rest. userObjects c \<noteq> PageError # rest) \<and>
   fst (principalsLoop helpersA subscriptionA userObjects manyIds 0 NewMetricsList) =
     consecutiveBatches chunkSize manyIds \<and>
   collectPrincipals helpersA subscriptionA userObjects manyIds worldA =
     Returned (send [CallGaugeSet (replicate 2500 (principalInfoRow ''p1'')) PrincipalGauge]
       worldA) \<and>
   (\<forall>c rest. mixedObjects c \<noteq> PageError # rest) \<and>
   collectPrincipals helpersA subscriptionA mixedObjects [''p1'', ''p2''] worldA =
     Returned (send [CallGaugeSet [principalInfoRow ''p1'', groupInfoRowA] PrincipalGauge] worldA)"
proof -
  note inst = principal_batches [where ids = manyIds and h = helpersA and sub = subscriptionA
      and getObjects = noObjects and m = NewMetricsList and w = worldA and s = "''s1''"]
  note inst' = principal_batches [where ids = manyIds and h = helpersA and sub = subscriptionA
      and getObjects = userObjects and m = NewMetricsList and w = worldA and s = "''s1''"]
  note inst'' = principal_batches [where ids = "[''p1'', ''p2'']" and h = helpersA
      and sub = subscriptionA and getObjects = mixedObjects and m = NewMetricsList
      and w = worldA and s = "''s1''"]
  have l: "length manyIds = 2500" by (simp add: manyIds_def)
  have s: "snd (principalsLoop helpersA subscriptionA noObjects manyIds 0 NewMetricsList) =
           Inr NewMetricsList"
    by (simp only: principalsLoop_manyIds snd_conv)
  have m: "replicate 502 ''p1'' \<in> set (consecutiveBatches chunkSize manyIds)"
    by (simp only: consecutiveBatches_manyIds) simp
  from inst m have n: "replicate 502 ''p1'' \<noteq> [] \<and> length (replicate 502 ''p1'') \<le> 999"
    by blast
  from inst s have r: "fst (principalsLoop helpersA subscriptionA noObjects manyIds 0
        NewMetricsList) = consecutiveBatches chunkSize manyIds \<and>
      collectPrincipals helpersA subscriptionA noObjects manyIds worldA =
        Returned (send [CallGaugeSet NewMetricsList PrincipalGauge] worldA)"
    by blast
  from inst have c: "concat (consecutiveBatches chunkSize manyIds) = manyIds" by blast
  have i: "sub_SubscriptionID subscriptionA = Some ''s1''" by (simp add: subscriptionA_def)
  have u: "\<forall>c rest. userObjects c \<noteq> PageError # rest" by (simp add: userObjects_def)
  have x: "\<forall>c rest. mixedObjects c \<noteq> PageError # rest" by (simp add: mixedObjects_def)
  from inst' i u have "fst (principalsLoop helpersA subscriptionA userObjects manyIds 0
        NewMetricsList) = consecutiveBatches chunkSize manyIds \<and>
      collectPrincipals helpersA subscriptionA userObjects manyIds worldA =
        Returned (send [CallGaugeSet
          (concat (map (\<lambda>c. concat (map (principalInfos helpersA ''s1'') (visited (userObjects c))))
                     (consecutiveBatches chunkSize manyIds))) PrincipalGauge] worldA)"
    by blast
  then have y: "fst (principalsLoop helpersA subscriptionA userObjects manyIds 0
        NewMetricsList) = consecutiveBatches chunkSize manyIds \<and>
      collectPrincipals helpersA subscriptionA userObjects manyIds worldA =
        Returned (send [CallGaugeSet (replicate 2500 (principalInfoRow ''p1'')) PrincipalGauge]
          worldA)"
    by (simp only: userObjects_rows)
  from inst'' i x have "collectPrincipals helpersA subscriptionA mixedObjects [''p1'', ''p2''] worldA =
        Returned (send [CallGaugeSet
          (concat (map (\<lambda>c. concat (map (principalInfos helpersA ''s1'') (visited (mixedObjects c))))
                     (consecutiveBatches chunkSize [''p1'', ''p2'']))) PrincipalGauge] worldA)"
    by blast
  then have z: "collectPrincipals helpersA subscriptionA mixedObjects [''p1'', ''p2''] worldA =
     Returned (send [CallGaugeSet [principalInfoRow ''p1'', groupInfoRowA] PrincipalGauge] worldA)"
    by (simp only: mixedObjects_rows)
  from consecutiveBatches_manyIds l m n c s r i u x y z show ?thesis by blast
qed

section \<open>Principal identifiers of the role assignments\<close>






lemma visited_one_page: "visited [Page (Some xs)] = xs"
  by (simp add: pageValues_def)









section \<open>Failure of a request of a listing\<close>



























end
